theory Spec2Isabelle
  imports Complex_Main "HOL-Library.Word" "HOL-Library.Char_ord" "HOL-Library.List_Lexorder"
begin

section \<open>Platform values\<close>

text \<open>
  A browser \<open>File\<close>: its name, its MIME type and its bytes. The attribute \<open>file.size\<close> of
  the source is the number of bytes of the blob.
\<close>

type_synonym byte = "8 word"

record File =
  file_name :: string
  file_type :: string
  file_bytes :: "byte list"

definition file_size :: "File \<Rightarrow> nat" where
  "file_size f = length (file_bytes f)"

text \<open>
  A value that a promise rejects with or that a \<open>throw\<close> raises: \<open>new Error(message)\<close>, or
  any other value (the \<open>ProgressEvent\<close> of a failed \<open>FileReader\<close>, for instance), for which
  \<open>error instanceof Error\<close> is false.
\<close>

datatype thrown = Error string | NonError

text \<open>Decimal rendering of a number inside a template literal.\<close>

function dec :: "nat \<Rightarrow> string" where
  "dec n = (if n < 10 then [''0123456789'' ! n] else dec (n div 10) @ [''0123456789'' ! (n mod 10)])"
  by pat_completeness auto
termination
  by (relation "measure id") auto

declare dec.simps [simp del]

definition show_int :: "int \<Rightarrow> string" where
  "show_int i = (if i < 0 then CHR ''-'' # dec (nat (- i)) else dec (nat i))"

text \<open>\<open>Math.round(x / 1024 / 1024)\<close> for an integer \<open>x\<close>: the nearest integer, halves upwards.\<close>

definition round_mb :: "int \<Rightarrow> int" where
  "round_mb x = (2 * x + 1048576) div 2097152"

section \<open>The blob store (IndexedDBStorageService.ts)\<close>

record StoredVideo =
  sv_id :: string
  sv_file :: File
  sv_title :: string
  sv_description :: string
  sv_uploadDate :: string
  sv_duration :: real
  sv_thumbnail :: string
  sv_size :: nat

record StorageStats =
  totalVideos :: nat
  totalSize :: nat
  availableQuota :: nat
  usedQuota :: nat

text \<open>
  The service holds the handle \<open>this.db\<close> (null until \<open>initDB\<close> has succeeded); the browser
  holds the object store \<open>videos\<close> of the database, whose key path is \<open>id\<close>: its records,
  in the order of their keys, no two with the same key.
\<close>

record idb =
  db_open :: bool
  object_store :: "StoredVideo list"

text \<open>
  What an IndexedDB call does inside the promise executor of the service: its request fires
  \<open>onsuccess\<close>, or fires \<open>onerror\<close>, or the call itself (\<open>indexedDB.open\<close>,
  \<open>db.transaction\<close>, \<open>objectStore\<close>, \<open>add\<close>, \<open>get\<close>, ...) throws, and the promise then
  rejects with the value thrown.
\<close>

datatype idb_answer = Succeeds | FiresError | Throws thrown

text \<open>
  What the browser answers during one call of the service: what \<open>indexedDB.open\<close> does,
  what the request on the object store does (an \<open>add\<close> of a key that is present fires
  \<open>onerror\<close> even where this says \<open>Succeeds\<close>), what \<open>navigator.storage.estimate\<close> gives,
  the clock, the random part of the identifier, the rendered upload date and the URL that
  \<open>URL.createObjectURL\<close> makes.
\<close>

datatype estimate_result =
  NoStorageAPI
  | EstimateRejects thrown
  | Estimate "nat option" "nat option"

record browser =
  open_answer :: idb_answer
  request_answer :: idb_answer
  estimate :: estimate_result
  now :: nat
  random_part :: string
  upload_date :: string
  object_url :: "File \<Rightarrow> string"

definition or_zero :: "nat option \<Rightarrow> nat" where
  "or_zero v = (case v of None \<Rightarrow> 0 | Some n \<Rightarrow> n)"

definition open_ok :: "browser \<Rightarrow> bool" where
  "open_ok b = (open_answer b = Succeeds)"

definition request_ok :: "browser \<Rightarrow> bool" where
  "request_ok b = (request_answer b = Succeeds)"

definition initDB :: "browser \<Rightarrow> idb \<Rightarrow> thrown + idb" where
  "initDB b s =
     (case open_answer b of
        Succeeds \<Rightarrow> Inr (s\<lparr>db_open := True\<rparr>)
      | FiresError \<Rightarrow> Inl (Error ''Failed to open IndexedDB'')
      | Throws t \<Rightarrow> Inl t)"

definition ensureDB :: "browser \<Rightarrow> idb \<Rightarrow> thrown + idb" where
  "ensureDB b s = (if \<not> db_open s then initDB b s else Inr s)"

text \<open>
  The quota check of \<open>storeVideoFile\<close>. The source compares \<open>file.size\<close> with
  \<open>availableSpace * 0.9\<close> in double precision; the comparison is taken here over the
  integers.
\<close>

definition quota_check :: "browser \<Rightarrow> File \<Rightarrow> thrown option" where
  "quota_check b file =
     (case estimate b of
        NoStorageAPI \<Rightarrow> None
      | EstimateRejects t \<Rightarrow> Some t
      | Estimate quota usage \<Rightarrow>
          (let availableSpace = int (or_zero quota) - int (or_zero usage) in
           if 10 * int (file_size file) > 9 * availableSpace
           then Some (Error (''File too large. Available space: ''
                  @ show_int (round_mb availableSpace) @ ''MB, File size: ''
                  @ show_int (round_mb (int (file_size file))) @ ''MB''))
           else None))"

definition make_video_id :: "browser \<Rightarrow> string" where
  "make_video_id b = ''video_'' @ dec (now b) @ ''_'' @ random_part b"

text \<open>\<open>store.add\<close>: the request fails when the key is already in the object store.\<close>

definition idb_add :: "idb_answer \<Rightarrow> StoredVideo \<Rightarrow> StoredVideo list \<Rightarrow> thrown + StoredVideo list" where
  "idb_add answer v st =
     (case answer of
        Throws t \<Rightarrow> Inl t
      | FiresError \<Rightarrow> Inl (Error ''Failed to store video file'')
      | Succeeds \<Rightarrow>
          if sv_id v \<in> set (map sv_id st) then Inl (Error ''Failed to store video file'')
          else Inr (insort_key sv_id v st))"

definition storeVideoFile ::
  "browser \<Rightarrow> File \<Rightarrow> string \<Rightarrow> string \<Rightarrow> real \<Rightarrow> string \<Rightarrow> idb \<Rightarrow> (thrown + string) \<times> idb" where
  "storeVideoFile b file title description duration thumbnail s =
     (case ensureDB b s of
        Inl err \<Rightarrow> (Inl err, s)
      | Inr s1 \<Rightarrow>
          if \<not> db_open s1 then (Inl (Error ''Database not initialized''), s1)
          else
            (case quota_check b file of
               Some err \<Rightarrow> (Inl err, s1)
             | None \<Rightarrow>
                 (let videoId = make_video_id b;
                      videoData = \<lparr>sv_id = videoId, sv_file = file, sv_title = title,
                                   sv_description = description, sv_uploadDate = upload_date b,
                                   sv_duration = duration, sv_thumbnail = thumbnail,
                                   sv_size = file_size file\<rparr>
                  in case idb_add (request_answer b) videoData (object_store s1) of
                       Inr st \<Rightarrow> (Inr videoId, s1\<lparr>object_store := st\<rparr>)
                     | Inl err \<Rightarrow> (Inl err, s1))))"

definition getStoredVideo :: "browser \<Rightarrow> string \<Rightarrow> idb \<Rightarrow> (thrown + StoredVideo option) \<times> idb" where
  "getStoredVideo b videoId s =
     (case ensureDB b s of
        Inl err \<Rightarrow> (Inl err, s)
      | Inr s1 \<Rightarrow>
          if \<not> db_open s1 then (Inr None, s1)
          else
            (case request_answer b of
               Succeeds \<Rightarrow> (Inr (find (\<lambda>v. sv_id v = videoId) (object_store s1)), s1)
             | FiresError \<Rightarrow> (Inl (Error ''Failed to retrieve video''), s1)
             | Throws t \<Rightarrow> (Inl t, s1)))"

definition getAllStoredVideos :: "browser \<Rightarrow> idb \<Rightarrow> (thrown + StoredVideo list) \<times> idb" where
  "getAllStoredVideos b s =
     (case ensureDB b s of
        Inl err \<Rightarrow> (Inl err, s)
      | Inr s1 \<Rightarrow>
          if \<not> db_open s1 then (Inr [], s1)
          else
            (case request_answer b of
               Succeeds \<Rightarrow> (Inr (object_store s1), s1)
             | FiresError \<Rightarrow> (Inl (Error ''Failed to retrieve videos''), s1)
             | Throws t \<Rightarrow> (Inl t, s1)))"

definition deleteStoredVideo :: "browser \<Rightarrow> string \<Rightarrow> idb \<Rightarrow> (thrown + unit) \<times> idb" where
  "deleteStoredVideo b videoId s =
     (case ensureDB b s of
        Inl err \<Rightarrow> (Inl err, s)
      | Inr s1 \<Rightarrow>
          if \<not> db_open s1 then (Inl (Error ''Database not initialized''), s1)
          else
            (case request_answer b of
               Succeeds \<Rightarrow>
                 (Inr (), s1\<lparr>object_store := filter (\<lambda>v. sv_id v \<noteq> videoId) (object_store s1)\<rparr>)
             | FiresError \<Rightarrow> (Inl (Error ''Failed to delete video''), s1)
             | Throws t \<Rightarrow> (Inl t, s1)))"

definition getStoredVideoUrl :: "browser \<Rightarrow> string \<Rightarrow> idb \<Rightarrow> (thrown + string option) \<times> idb" where
  "getStoredVideoUrl b videoId s =
     (case getStoredVideo b videoId s of
        (Inl err, s1) \<Rightarrow> (Inl err, s1)
      | (Inr None, s1) \<Rightarrow> (Inr None, s1)
      | (Inr (Some video), s1) \<Rightarrow> (Inr (Some (object_url b (sv_file video))), s1))"

definition getStorageStats :: "browser \<Rightarrow> idb \<Rightarrow> (thrown + StorageStats) \<times> idb" where
  "getStorageStats b s =
     (case getAllStoredVideos b s of
        (Inl err, s1) \<Rightarrow> (Inl err, s1)
      | (Inr videos, s1) \<Rightarrow>
          (let total = foldl (\<lambda>sum video. sum + sv_size video) 0 videos;
               quotas = (case estimate b of
                           Estimate quota usage \<Rightarrow> (or_zero quota, or_zero usage)
                         | EstimateRejects t \<Rightarrow> (0, 0)
                         | NoStorageAPI \<Rightarrow> (0, 0))
           in (Inr \<lparr>totalVideos = length videos, totalSize = total,
                     availableQuota = fst quotas, usedQuota = snd quotas\<rparr>, s1)))"

definition clearAllVideos :: "browser \<Rightarrow> idb \<Rightarrow> (thrown + unit) \<times> idb" where
  "clearAllVideos b s =
     (case ensureDB b s of
        Inl err \<Rightarrow> (Inl err, s)
      | Inr s1 \<Rightarrow>
          if \<not> db_open s1 then (Inl (Error ''Database not initialized''), s1)
          else
            (case request_answer b of
               Succeeds \<Rightarrow> (Inr (), s1\<lparr>object_store := []\<rparr>)
             | FiresError \<Rightarrow> (Inl (Error ''Failed to clear videos''), s1)
             | Throws t \<Rightarrow> (Inl t, s1)))"

text \<open>The object store never holds two records under one key.\<close>

definition store_inv :: "idb \<Rightarrow> bool" where
  "store_inv s = distinct (map sv_id (object_store s))"

section \<open>Strings\<close>

text \<open>
  \<open>s.startsWith(p)\<close>, \<open>s.includes(p)\<close>, \<open>s.trim()\<close> and \<open>s.split(c)\<close>. A character of a
  \<open>string\<close> stands for one UTF-16 code unit below 256; strings with other code units have no
  counterpart here. Of the white space and line terminators that \<open>trim\<close> removes, the ones
  below 256 are tab, line feed, vertical tab, form feed, carriage return, space and the
  no-break space U+00A0.
\<close>

definition startsWith :: "string \<Rightarrow> string \<Rightarrow> bool" where
  "startsWith s p = (take (length p) s = p)"

fun string_includes :: "string \<Rightarrow> string \<Rightarrow> bool" where
  "string_includes [] p = (p = [])"
| "string_includes (c # cs) p = (startsWith (c # cs) p \<or> string_includes cs p)"

definition is_space :: "char \<Rightarrow> bool" where
  "is_space c = (c \<in> set [CHR 0x09, CHR 0x0A, CHR 0x0B, CHR 0x0C, CHR 0x0D, CHR 0x20, CHR 0xA0])"

definition trim :: "string \<Rightarrow> string" where
  "trim s = rev (dropWhile is_space (rev (dropWhile is_space s)))"

fun split_on :: "char \<Rightarrow> string \<Rightarrow> string list" where
  "split_on c [] = [[]]"
| "split_on c (x # xs) =
     (if x = c then [] # split_on c xs
      else (case split_on c xs of
              [] \<Rightarrow> [[x]]
            | y # ys \<Rightarrow> (x # y) # ys))"

text \<open>\<open>a || d\<close> for an optional string: the default replaces a missing or empty value.\<close>

definition or_string :: "string option \<Rightarrow> string \<Rightarrow> string" where
  "or_string a d = (case a of None \<Rightarrow> d | Some v \<Rightarrow> if v = [] then d else v)"

definition or_else :: "'a option \<Rightarrow> 'a \<Rightarrow> 'a" where
  "or_else a d = (case a of None \<Rightarrow> d | Some v \<Rightarrow> v)"

section \<open>The user service (UserService.ts)\<close>

text \<open>
  \<open>localStorage\<close>, for the keys \<open>wishlist_<userId>\<close> and \<open>watchHistory_<userId>\<close>. The
  service writes the JSON text of an array of strings under them and parses it back; the
  model holds the array itself. \<open>read_ok\<close> and \<open>write_ok\<close> say whether reading
  (\<open>getItem\<close>, \<open>JSON.parse\<close>) and writing (\<open>setItem\<close>) go through without throwing.
\<close>

type_synonym localStorage = "string \<rightharpoonup> string list"

record storage_answers =
  read_ok :: bool
  write_ok :: bool

definition getUserWishlist :: "storage_answers \<Rightarrow> string \<Rightarrow> localStorage \<Rightarrow> thrown + string list" where
  "getUserWishlist a userId ls =
     (if read_ok a
      then Inr (case ls (''wishlist_'' @ userId) of None \<Rightarrow> [] | Some savedWishlist \<Rightarrow> savedWishlist)
      else Inl (Error ''Failed to fetch wishlist''))"

definition UserService_addToWishlist ::
  "storage_answers \<Rightarrow> string \<Rightarrow> string \<Rightarrow> localStorage \<Rightarrow> (thrown + unit) \<times> localStorage" where
  "UserService_addToWishlist a userId videoId ls =
     (case getUserWishlist a userId ls of
        Inl err \<Rightarrow> (Inl (Error ''Failed to add to wishlist''), ls)
      | Inr wishlist \<Rightarrow>
          if videoId \<notin> set wishlist
          then (if write_ok a
                then (Inr (), ls(''wishlist_'' @ userId \<mapsto> wishlist @ [videoId]))
                else (Inl (Error ''Failed to add to wishlist''), ls))
          else (Inr (), ls))"

definition removeFromWishlist ::
  "storage_answers \<Rightarrow> string \<Rightarrow> string \<Rightarrow> localStorage \<Rightarrow> (thrown + unit) \<times> localStorage" where
  "removeFromWishlist a userId videoId ls =
     (case getUserWishlist a userId ls of
        Inl err \<Rightarrow> (Inl (Error ''Failed to remove from wishlist''), ls)
      | Inr wishlist \<Rightarrow>
          (let updatedWishlist = filter (\<lambda>i. i \<noteq> videoId) wishlist in
           if write_ok a
           then (Inr (), ls(''wishlist_'' @ userId \<mapsto> updatedWishlist))
           else (Inl (Error ''Failed to remove from wishlist''), ls)))"

definition getWatchHistory :: "storage_answers \<Rightarrow> string \<Rightarrow> localStorage \<Rightarrow> thrown + string list" where
  "getWatchHistory a userId ls =
     (if read_ok a
      then Inr (case ls (''watchHistory_'' @ userId) of None \<Rightarrow> [] | Some savedHistory \<Rightarrow> savedHistory)
      else Inl (Error ''Failed to fetch watch history''))"

definition UserService_addToWatchHistory ::
  "storage_answers \<Rightarrow> string \<Rightarrow> string \<Rightarrow> localStorage \<Rightarrow> (thrown + unit) \<times> localStorage" where
  "UserService_addToWatchHistory a userId videoId ls =
     (case getWatchHistory a userId ls of
        Inl err \<Rightarrow> (Inl (Error ''Failed to add to watch history''), ls)
      | Inr history \<Rightarrow>
          (let filteredHistory = filter (\<lambda>i. i \<noteq> videoId) history;
               updatedHistory = take 50 (videoId # filteredHistory)
           in if write_ok a
              then (Inr (), ls(''watchHistory_'' @ userId \<mapsto> updatedHistory))
              else (Inl (Error ''Failed to add to watch history''), ls)))"

text \<open>The wishlist that is stored for a user.\<close>

definition stored_wishlist :: "string \<Rightarrow> localStorage \<Rightarrow> string list" where
  "stored_wishlist userId ls = (case ls (''wishlist_'' @ userId) of None \<Rightarrow> [] | Some w \<Rightarrow> w)"

text \<open>
  The states of \<open>localStorage\<close> that the service produces from an empty one by its three
  writing operations.
\<close>

inductive written_by_service :: "localStorage \<Rightarrow> bool" where
  fresh: "written_by_service Map.empty"
| add: "written_by_service ls \<Longrightarrow>
          written_by_service (snd (UserService_addToWishlist a userId videoId ls))"
| remove: "written_by_service ls \<Longrightarrow>
          written_by_service (snd (removeFromWishlist a userId videoId ls))"
| watch: "written_by_service ls \<Longrightarrow>
          written_by_service (snd (UserService_addToWatchHistory a userId videoId ls))"

section \<open>The hook (useVideoDatabase.ts)\<close>

record AuthUser =
  user_id :: string
  user_name :: string
  user_email :: string
  user_avatar :: "string option"
  user_token :: string

text \<open>
  The two lists the hook keeps in memory, and what \<open>useAuth\<close> gives it. The hook's
  \<open>addToWatchHistory\<close> returns at once for a visitor who is not logged in, and leaves the
  list as it is when the service call throws.
\<close>

record hook_state =
  wishlist :: "string list"
  watchHistory :: "string list"

definition addToWatchHistory ::
  "storage_answers \<Rightarrow> bool \<Rightarrow> AuthUser option \<Rightarrow> string \<Rightarrow> localStorage \<times> hook_state
     \<Rightarrow> localStorage \<times> hook_state" where
  "addToWatchHistory a isAuthenticated user videoId st =
     (case st of (ls, h) \<Rightarrow>
        (case user of
           None \<Rightarrow> (ls, h)
         | Some u \<Rightarrow>
             if \<not> isAuthenticated then (ls, h)
             else
               (case UserService_addToWatchHistory a (user_id u) videoId ls of
                  (Inl err, ls1) \<Rightarrow> (ls1, h)
                | (Inr done, ls1) \<Rightarrow>
                    (ls1, h\<lparr>watchHistory :=
                             take 50 (videoId # filter (\<lambda>i. i \<noteq> videoId) (watchHistory h))\<rparr>))))"

text \<open>
  \<open>loadUserData\<close> reads both lists of the user with \<open>Promise.all\<close> and sets them when both
  reads succeed. The effect on \<open>isAuthenticated\<close> and \<open>user\<close> loads them for a logged-in user
  and empties both lists otherwise.
\<close>

definition loadUserData ::
  "storage_answers \<Rightarrow> storage_answers \<Rightarrow> AuthUser option \<Rightarrow> localStorage \<times> hook_state
     \<Rightarrow> localStorage \<times> hook_state" where
  "loadUserData a1 a2 user st =
     (case st of (ls, h) \<Rightarrow>
        (case user of
           None \<Rightarrow> (ls, h)
         | Some u \<Rightarrow>
             (case getUserWishlist a1 (user_id u) ls of
                Inl err \<Rightarrow> (ls, h)
              | Inr userWishlist \<Rightarrow>
                  (case getWatchHistory a2 (user_id u) ls of
                     Inl err \<Rightarrow> (ls, h)
                   | Inr userHistory \<Rightarrow>
                       (ls, h\<lparr>wishlist := userWishlist, watchHistory := userHistory\<rparr>)))))"

definition userDataEffect ::
  "storage_answers \<Rightarrow> storage_answers \<Rightarrow> bool \<Rightarrow> AuthUser option \<Rightarrow> localStorage \<times> hook_state
     \<Rightarrow> localStorage \<times> hook_state" where
  "userDataEffect a1 a2 isAuthenticated user st =
     (if isAuthenticated \<and> user \<noteq> None then loadUserData a1 a2 user st
      else (fst st, (snd st)\<lparr>wishlist := [], watchHistory := []\<rparr>))"

text \<open>The hook's \<open>addToWishlist\<close> toggles the video in the wishlist.\<close>

definition addToWishlist ::
  "storage_answers \<Rightarrow> bool \<Rightarrow> AuthUser option \<Rightarrow> string \<Rightarrow> localStorage \<times> hook_state
     \<Rightarrow> localStorage \<times> hook_state" where
  "addToWishlist a isAuthenticated user videoId st =
     (case st of (ls, h) \<Rightarrow>
        (case user of
           None \<Rightarrow> (ls, h)
         | Some u \<Rightarrow>
             if \<not> isAuthenticated then (ls, h)
             else if videoId \<in> set (wishlist h)
             then (case removeFromWishlist a (user_id u) videoId ls of
                     (Inl err, ls1) \<Rightarrow> (ls1, h)
                   | (Inr done, ls1) \<Rightarrow>
                       (ls1, h\<lparr>wishlist := filter (\<lambda>i. i \<noteq> videoId) (wishlist h)\<rparr>))
             else (case UserService_addToWishlist a (user_id u) videoId ls of
                     (Inl err, ls1) \<Rightarrow> (ls1, h)
                   | (Inr done, ls1) \<Rightarrow> (ls1, h\<lparr>wishlist := wishlist h @ [videoId]\<rparr>))))"

text \<open>
  The states of the storage and of one instance of the hook: the hook starts with both lists
  empty on a storage that the service has written; then the effect runs, the hook's
  operations are called, and other components call the writing operations of the service.
\<close>

inductive hook_reachable :: "localStorage \<times> hook_state \<Rightarrow> bool" where
  mounted: "written_by_service ls \<Longrightarrow> hook_reachable (ls, \<lparr>wishlist = [], watchHistory = []\<rparr>)"
| effect: "hook_reachable st \<Longrightarrow> hook_reachable (userDataEffect a1 a2 isAuthenticated usr st)"
| toggled: "hook_reachable st \<Longrightarrow> hook_reachable (addToWishlist a isAuthenticated usr videoId st)"
| watched: "hook_reachable st \<Longrightarrow> hook_reachable (addToWatchHistory a isAuthenticated usr videoId st)"
| elsewhere_added: "hook_reachable (ls, h) \<Longrightarrow>
     hook_reachable (snd (UserService_addToWishlist a userId videoId ls), h)"
| elsewhere_removed: "hook_reachable (ls, h) \<Longrightarrow>
     hook_reachable (snd (removeFromWishlist a userId videoId ls), h)"
| elsewhere_watched: "hook_reachable (ls, h) \<Longrightarrow>
     hook_reachable (snd (UserService_addToWatchHistory a userId videoId ls), h)"

text \<open>The watch history that is stored for a user.\<close>

definition stored_history :: "string \<Rightarrow> localStorage \<Rightarrow> string list" where
  "stored_history userId ls = (case ls (''watchHistory_'' @ userId) of None \<Rightarrow> [] | Some h \<Rightarrow> h)"

text \<open>
  The invariant of the hook: in every state the storage is one that the service has written, and the
  watch history in memory holds no id twice and at most 50 ids.
\<close>

definition hook_inv :: "localStorage \<times> hook_state \<Rightarrow> bool" where
  "hook_inv st = (written_by_service (fst st)
                  \<and> distinct (watchHistory (snd st)) \<and> length (watchHistory (snd st)) \<le> 50)"

section \<open>The catalog (VideoService.ts)\<close>

record Creator =
  creator_name :: string
  creator_avatar :: string
  creator_subscribers :: nat

record Video =
  v_id :: string
  v_title :: string
  v_description :: string
  v_thumbnail :: string
  v_videoUrl :: string
  v_duration :: string
  v_views :: nat
  v_likes :: nat
  v_uploadDate :: string
  v_tags :: "string list"
  v_category :: string
  v_quality :: "string list"
  v_creator :: Creator

text \<open>\<open>Partial<Video>\<close>, for the fields that \<open>uploadVideo\<close> reads.\<close>

record PartialVideo =
  p_title :: "string option"
  p_description :: "string option"
  p_thumbnail :: "string option"
  p_videoUrl :: "string option"
  p_duration :: "string option"
  p_uploadDate :: "string option"
  p_tags :: "string list option"
  p_category :: "string option"
  p_quality :: "string list option"
  p_creator :: "Creator option"

text \<open>
  \<open>uploadVideo\<close> puts the new entry at the front of \<open>mockVideos\<close>. \<open>clock\<close> is \<open>Date.now()\<close>
  and \<open>today\<close> what \<open>formatUploadDate()\<close> renders (videoUtils is not part of the sources).
\<close>

definition uploadVideo :: "nat \<Rightarrow> string \<Rightarrow> PartialVideo \<Rightarrow> Video list \<Rightarrow> Video \<times> Video list" where
  "uploadVideo clock today videoData mockVideos =
     (let newVideo = \<lparr>v_id = dec clock,
                       v_title = or_string (p_title videoData) [],
                       v_description = or_string (p_description videoData) [],
                       v_thumbnail = or_string (p_thumbnail videoData) ''/default-thumbnail.jpg'',
                       v_videoUrl = or_string (p_videoUrl videoData) [],
                       v_duration = or_string (p_duration videoData) ''5:30'',
                       v_views = 0,
                       v_likes = 0,
                       v_uploadDate = or_string (p_uploadDate videoData) today,
                       v_tags = or_else (p_tags videoData) [],
                       v_category = or_string (p_category videoData) ''Entertainment'',
                       v_quality = or_else (p_quality videoData) [''1080p''],
                       v_creator = or_else (p_creator videoData)
                                     \<lparr>creator_name = ''Unknown Creator'',
                                      creator_avatar = ''/default-avatar.png'',
                                      creator_subscribers = 0\<rparr>\<rparr>
      in (newVideo, newVideo # mockVideos))"

section \<open>The upload dialog (VideoUploadModal.tsx)\<close>

record FormData =
  fd_title :: string
  fd_description :: string
  fd_category :: string
  fd_tags :: string
  fd_quality :: string

definition initial_form :: FormData where
  "initial_form = \<lparr>fd_title = [], fd_description = [], fd_category = ''entertainment'',
                    fd_tags = [], fd_quality = ''1080p''\<rparr>"

datatype toast = ToastError string | ToastSuccess string

text \<open>
  The calls that \<open>handleSubmit\<close> makes outside the component. The dialog keeps them in the
  order made, each with the video file whose upload makes it.
\<close>

datatype effect =
  SimulateUpload
  | ReadThumbnailFile
  | GenerateVideoThumbnail
  | GetVideoDuration
  | StoreVideoFile
  | UploadVideo
  | TriggerRefresh
  | OnVideoUploaded
  | OnClose

text \<open>
  The state that the dialog reads and writes: its own React state, the logged-in user, the
  blob store, the catalog, the refresh counter of \<open>VideoContext\<close>, the toasts shown and the
  calls made.
\<close>

record world =
  user :: "AuthUser option"
  formData :: FormData
  videoFile :: "File option"
  thumbnailFile :: "File option"
  isUploading :: bool
  uploadProgress :: nat
  store :: idb
  mockVideos :: "Video list"
  refreshTrigger :: nat
  toasts :: "toast list"
  effects :: "(File \<times> effect) list"

text \<open>
  A promise resolves, rejects or stays pending. \<open>generateVideoThumbnail\<close>,
  \<open>getVideoDuration\<close> and \<open>formatDuration\<close> belong to videoUtils, which is not part of the
  sources: what they give for the file at hand is a parameter, as is what the \<open>FileReader\<close>
  gives for the thumbnail file (its failure rejects with the event, which is no \<open>Error\<close>).
\<close>

datatype 'a promise = Resolved 'a | Rejected thrown | Pending

record upload_answers =
  read_thumbnail :: "string promise"
  generate_thumbnail :: "string promise"
  video_duration :: "real promise"
  format_duration :: "real \<Rightarrow> string"
  store_browser :: browser
  catalog_clock :: nat
  iso_date :: string
  catalog_date :: string

definition toast_error :: "string \<Rightarrow> world \<Rightarrow> world" where
  "toast_error m w = w\<lparr>toasts := toasts w @ [ToastError m]\<rparr>"

definition call :: "File \<Rightarrow> effect \<Rightarrow> world \<Rightarrow> world" where
  "call file e w = w\<lparr>effects := effects w @ [(file, e)]\<rparr>"

text \<open>\<open>handleInputChange\<close> sets the field of the form that the input is named after.\<close>

definition handleInputChange :: "string \<Rightarrow> string \<Rightarrow> world \<Rightarrow> world" where
  "handleInputChange name val w =
     (let prev = formData w in
      w\<lparr>formData :=
           (if name = ''title'' then prev\<lparr>fd_title := val\<rparr>
            else if name = ''description'' then prev\<lparr>fd_description := val\<rparr>
            else if name = ''category'' then prev\<lparr>fd_category := val\<rparr>
            else if name = ''tags'' then prev\<lparr>fd_tags := val\<rparr>
            else if name = ''quality'' then prev\<lparr>fd_quality := val\<rparr>
            else prev)\<rparr>)"

definition handleVideoFileChange :: "File option \<Rightarrow> world \<Rightarrow> world" where
  "handleVideoFileChange selected w =
     (case selected of
        None \<Rightarrow> w
      | Some file \<Rightarrow>
          if file_size file > 500 * 1024 * 1024
          then toast_error ''Video file size should be less than 500MB'' w
          else if \<not> startsWith (file_type file) ''video/''
          then toast_error ''Please select a valid video file'' w
          else w\<lparr>videoFile := Some file\<rparr>)"

definition handleThumbnailFileChange :: "File option \<Rightarrow> world \<Rightarrow> world" where
  "handleThumbnailFileChange selected w =
     (case selected of
        None \<Rightarrow> w
      | Some file \<Rightarrow>
          if \<not> startsWith (file_type file) ''image/''
          then toast_error ''Please select a valid image file'' w
          else w\<lparr>thumbnailFile := Some file\<rparr>)"

text \<open>The \<open>catch\<close> block of \<open>handleSubmit\<close>, followed by its \<open>finally\<close>.\<close>

definition catch_message :: "thrown \<Rightarrow> string" where
  "catch_message t =
     (case t of
        Error message \<Rightarrow>
          if string_includes message ''quota'' \<or> string_includes message ''storage''
          then ''Storage error: '' @ message
          else if string_includes message ''thumbnail''
          then ''Failed to generate video thumbnail. Please try with a smaller video file.''
          else if string_includes message ''duration''
          then ''Failed to extract video duration. Please try with a different video format.''
          else ''Upload failed: '' @ message
      | NonError \<Rightarrow> ''Failed to upload video. Please try again.'')"

definition catch_finally :: "thrown \<Rightarrow> world \<Rightarrow> world" where
  "catch_finally t w = (toast_error (catch_message t) w)\<lparr>isUploading := False\<rparr>"

text \<open>From the call of \<open>storeVideoFile\<close> to the end of the \<open>try\<close> block.\<close>

definition persist :: "upload_answers \<Rightarrow> AuthUser \<Rightarrow> File \<Rightarrow> string \<Rightarrow> real \<Rightarrow> world \<Rightarrow> world" where
  "persist q u file thumbnailUrl actualDuration w =
     (case storeVideoFile (store_browser q) file (fd_title (formData w))
             (fd_description (formData w)) actualDuration thumbnailUrl (store w) of
        (Inl err, s1) \<Rightarrow> catch_finally err (call file StoreVideoFile (w\<lparr>store := s1\<rparr>))
      | (Inr videoId, s1) \<Rightarrow>
          (let storedVideoUrl = ''stored://'' @ videoId;
               videoData = \<lparr>p_title = Some (fd_title (formData w)),
                            p_description = Some (fd_description (formData w)),
                            p_thumbnail = Some thumbnailUrl,
                            p_videoUrl = Some storedVideoUrl,
                            p_duration = Some (format_duration q actualDuration),
                            p_uploadDate = Some (iso_date q),
                            p_tags = Some (filter (\<lambda>tag. tag \<noteq> [])
                                             (map trim (split_on CHR '','' (fd_tags (formData w))))),
                            p_category = Some (fd_category (formData w)),
                            p_quality = Some [fd_quality (formData w)],
                            p_creator = Some \<lparr>creator_name = user_name u,
                                               creator_avatar = or_string (user_avatar u) ''/default-avatar.png'',
                                               creator_subscribers = 0\<rparr>\<rparr>;
               catalog = snd (uploadVideo (catalog_clock q) (catalog_date q) videoData (mockVideos w))
           in w\<lparr>store := s1,
                 mockVideos := catalog,
                 toasts := toasts w @ [ToastSuccess ''Video uploaded successfully!''],
                 refreshTrigger := refreshTrigger w + 1,
                 formData := initial_form,
                 videoFile := None,
                 thumbnailFile := None,
                 uploadProgress := 0,
                 isUploading := False,
                 effects := effects w @ map (Pair file) [StoreVideoFile, UploadVideo, TriggerRefresh,
                                                        OnVideoUploaded, OnClose]\<rparr>))"

text \<open>The duration step: \<open>await getVideoDuration(videoFile)\<close>, outside any inner \<open>try\<close>.\<close>

definition extract_duration :: "upload_answers \<Rightarrow> AuthUser \<Rightarrow> File \<Rightarrow> string \<Rightarrow> world \<Rightarrow> world" where
  "extract_duration q u file thumbnailUrl w =
     (let w1 = call file GetVideoDuration w in
      case video_duration q of
        Pending \<Rightarrow> w1
      | Rejected err \<Rightarrow> catch_finally err w1
      | Resolved actualDuration \<Rightarrow> persist q u file thumbnailUrl actualDuration w1)"

text \<open>
  The thumbnail step: a custom thumbnail file is read as a data URL; without one a frame is
  sampled, inside an inner \<open>try\<close> whose \<open>catch\<close> keeps the default thumbnail.
\<close>

definition derive_thumbnail :: "upload_answers \<Rightarrow> AuthUser \<Rightarrow> File \<Rightarrow> world \<Rightarrow> world" where
  "derive_thumbnail q u file w =
     (case thumbnailFile w of
        Some custom \<Rightarrow>
          (let w1 = call file ReadThumbnailFile w in
           case read_thumbnail q of
             Pending \<Rightarrow> w1
           | Rejected err \<Rightarrow> catch_finally err w1
           | Resolved thumbnailUrl \<Rightarrow> extract_duration q u file thumbnailUrl w1)
      | None \<Rightarrow>
          (let w1 = call file GenerateVideoThumbnail w in
           case generate_thumbnail q of
             Pending \<Rightarrow> w1
           | Rejected err \<Rightarrow> extract_duration q u file ''/default-thumbnail.jpg'' w1
           | Resolved thumbnailUrl \<Rightarrow> extract_duration q u file thumbnailUrl w1))"

text \<open>
  \<open>handleSubmit\<close>. \<open>simulateUpload\<close> only moves the progress bar to 100. A promise that
  stays pending leaves the dialog with \<open>isUploading\<close> set.
\<close>

definition maxSize :: nat where
  "maxSize = 100 * 1024 * 1024"

definition handleSubmit :: "upload_answers \<Rightarrow> world \<Rightarrow> world" where
  "handleSubmit q w =
     (case user w of
        None \<Rightarrow> toast_error ''Please log in to upload videos'' w
      | Some u \<Rightarrow>
          (case videoFile w of
             None \<Rightarrow> toast_error ''Please select a video file'' w
           | Some file \<Rightarrow>
               if trim (fd_title (formData w)) = []
               then toast_error ''Please enter a video title'' w
               else if file_size file > maxSize
               then toast_error ''Video file is too large. Maximum size is 100MB.'' w
               else if \<not> startsWith (file_type file) ''video/''
               then toast_error ''Please select a valid video file'' w
               else derive_thumbnail q u file
                      (call file SimulateUpload (w\<lparr>isUploading := True, uploadProgress := 100\<rparr>))))"

text \<open>
  The states of the dialog: it is mounted with an empty form and no file; then its handlers
  run, and outside of it the user logs in or out and other components change the store, the
  catalog and the refresh counter. \<open>handleVideoFileChange\<close> is the only place that sets
  \<open>videoFile\<close> to a file.
\<close>

inductive dialog_reachable :: "world \<Rightarrow> bool" where
  mounted: "dialog_reachable \<lparr>user = u, formData = initial_form, videoFile = None,
              thumbnailFile = None, isUploading = False, uploadProgress = 0, store = s,
              mockVideos = c, refreshTrigger = r, toasts = [], effects = []\<rparr>"
| input: "dialog_reachable w \<Longrightarrow> dialog_reachable (handleInputChange name val w)"
| video: "dialog_reachable w \<Longrightarrow> dialog_reachable (handleVideoFileChange selected w)"
| thumbnail: "dialog_reachable w \<Longrightarrow> dialog_reachable (handleThumbnailFileChange selected w)"
| submit: "dialog_reachable w \<Longrightarrow> dialog_reachable (handleSubmit q w)"
| outside: "dialog_reachable w \<Longrightarrow>
     dialog_reachable (w\<lparr>user := u, store := s, mockVideos := c, refreshTrigger := r\<rparr>)"

text \<open>
  The invariant of the dialog: in every state the selected video file has passed the checks of
  \<open>handleVideoFileChange\<close>, and every call made so far was made for a file of a video type.
\<close>

definition dialog_inv :: "world \<Rightarrow> bool" where
  "dialog_inv w =
     ((case videoFile w of
         None \<Rightarrow> True
       | Some f \<Rightarrow> startsWith (file_type f) ''video/'' \<and> file_size f \<le> 500 * 1024 * 1024)
      \<and> list_all (\<lambda>c. startsWith (file_type (fst c)) ''video/'') (effects w))"

section \<open>Concrete values for the instances below\<close>

definition sample_file :: File where
  "sample_file = \<lparr>file_name = ''clip.mp4'', file_type = ''video/mp4'', file_bytes = [1, 2, 3]\<rparr>"

definition online :: browser where
  "online = \<lparr>open_answer = Succeeds, request_answer = Succeeds, estimate = Estimate (Some 1000) (Some 10),
     now = 1700, random_part = ''k3x9'', upload_date = ''2024-01-15'',
     object_url = (\<lambda>f. ''blob:'' @ file_name f)\<rparr>"

definition no_indexeddb :: browser where
  "no_indexeddb = online\<lparr>open_answer := FiresError\<rparr>"

definition sample_video :: StoredVideo where
  "sample_video = \<lparr>sv_id = ''video_1700_k3x9'', sv_file = sample_file, sv_title = ''Test'',
     sv_description = ''A clip'', sv_uploadDate = ''2024-01-15'', sv_duration = 3,
     sv_thumbnail = ''/default-thumbnail.jpg'', sv_size = 3\<rparr>"

definition closed_empty :: idb where
  "closed_empty = \<lparr>db_open = False, object_store = []\<rparr>"

definition open_empty :: idb where
  "open_empty = \<lparr>db_open = True, object_store = []\<rparr>"

definition open_one :: idb where
  "open_one = \<lparr>db_open = True, object_store = [sample_video]\<rparr>"

definition big_file :: File where
  "big_file = \<lparr>file_name = ''film.mp4'', file_type = ''video/mp4'',
                file_bytes = replicate 104857601 0\<rparr>"

definition huge_file :: File where
  "huge_file = \<lparr>file_name = ''long.mp4'', file_type = ''video/mp4'',
                 file_bytes = replicate 524288001 0\<rparr>"

definition huge_archive :: File where
  "huge_archive = \<lparr>file_name = ''backup.zip'', file_type = ''application/zip'',
                    file_bytes = replicate 524288001 0\<rparr>"

definition small_image :: File where
  "small_image = \<lparr>file_name = ''cover.png'', file_type = ''image/png'', file_bytes = [7, 8]\<rparr>"

definition alice :: AuthUser where
  "alice = \<lparr>user_id = ''u1'', user_name = ''Alice'', user_email = ''alice@example.com'',
            user_avatar = None, user_token = ''t''\<rparr>"

definition answers :: upload_answers where
  "answers = \<lparr>read_thumbnail = Resolved ''data:image/png;base64,AAAA'',
               generate_thumbnail = Resolved ''data:image/jpeg;base64,BBBB'',
               video_duration = Resolved 3,
               format_duration = (\<lambda>d. ''0:03''),
               store_browser = online,
               catalog_clock = 1701,
               iso_date = ''2024-01-15'',
               catalog_date = ''Jan 15, 2024''\<rparr>"

definition dialog :: world where
  "dialog = \<lparr>user = Some alice,
              formData = initial_form\<lparr>fd_title := ''Test'', fd_tags := ''a, b''\<rparr>,
              videoFile = Some sample_file, thumbnailFile = None,
              isUploading = False, uploadProgress = 0,
              store = closed_empty, mockVideos = [], refreshTrigger = 0,
              toasts = [], effects = []\<rparr>"

definition uploaded_entry :: Video where
  "uploaded_entry = \<lparr>v_id = ''1701'', v_title = ''Test'', v_description = [],
       v_thumbnail = ''data:image/jpeg;base64,BBBB'', v_videoUrl = ''stored://video_1700_k3x9'',
       v_duration = ''0:03'', v_views = 0, v_likes = 0, v_uploadDate = ''2024-01-15'',
       v_tags = [''a'', ''b''], v_category = ''entertainment'', v_quality = [''1080p''],
       v_creator = \<lparr>creator_name = ''Alice'', creator_avatar = ''/default-avatar.png'',
                     creator_subscribers = 0\<rparr>\<rparr>"

definition uploaded_record :: StoredVideo where
  "uploaded_record = \<lparr>sv_id = ''video_1700_k3x9'', sv_file = sample_file, sv_title = ''Test'',
     sv_description = [], sv_uploadDate = ''2024-01-15'', sv_duration = 3,
     sv_thumbnail = ''data:image/jpeg;base64,BBBB'', sv_size = 3\<rparr>"

definition storage_ok :: storage_answers where
  "storage_ok = \<lparr>read_ok = True, write_ok = True\<rparr>"

definition one_wish :: localStorage where
  "one_wish = [''wishlist_u1'' \<mapsto> [''v1'']]"

definition visitor :: hook_state where
  "visitor = \<lparr>wishlist = [], watchHistory = []\<rparr>"

definition watched_two :: hook_state where
  "watched_two = \<lparr>wishlist = [], watchHistory = [''v1'', ''v2'']\<rparr>"

definition history_two :: localStorage where
  "history_two = [''watchHistory_u1'' \<mapsto> [''v1'', ''v2'']]"

definition second_video :: StoredVideo where
  "second_video = \<lparr>sv_id = ''video_1800_q7w2'', sv_file = sample_file, sv_title = ''Second'',
     sv_description = [], sv_uploadDate = ''2024-01-16'', sv_duration = 5,
     sv_thumbnail = ''/default-thumbnail.jpg'', sv_size = 3\<rparr>"

definition closed_two :: idb where
  "closed_two = \<lparr>db_open = False, object_store = [sample_video, second_video]\<rparr>"

definition mounted_dialog :: world where
  "mounted_dialog = \<lparr>user = Some alice, formData = initial_form, videoFile = None,
     thumbnailFile = None, isUploading = False, uploadProgress = 0, store = closed_empty,
     mockVideos = [], refreshTrigger = 0, toasts = [], effects = []\<rparr>"

section \<open>Properties of the blob store\<close>

lemma find_insort_fresh:
  "sv_id v \<notin> set (map sv_id st) \<Longrightarrow>
     find (\<lambda>x. sv_id x = sv_id v) (insort_key sv_id v st) = Some v"
  by (induction st) auto

lemma find_absent: "k \<notin> set (map sv_id st) \<Longrightarrow> find (\<lambda>x. sv_id x = k) st = None"
  by (induction st) auto

lemma length_filter_distinct:
  "distinct (map sv_id st) \<Longrightarrow> k \<in> set (map sv_id st) \<Longrightarrow>
     Suc (length (filter (\<lambda>v. sv_id v \<noteq> k) st)) = length st"
proof (induction st)
  case Nil
  then show ?case by simp
next
  case (Cons v st)
  show ?case
  proof (cases "sv_id v = k")
    case True
    with Cons.prems have "k \<notin> set (map sv_id st)" by auto
    then have "filter (\<lambda>v. sv_id v \<noteq> k) st = st"
      by (induction st) auto
    with True show ?thesis by simp
  next
    case False
    with Cons show ?thesis by auto
  qed
qed

lemma ensureDB_open: "ensureDB b s = Inr s1 \<Longrightarrow> db_open s1 \<and> object_store s1 = object_store s"
  by (auto simp: ensureDB_def initDB_def split: if_splits idb_answer.splits)

lemma ensureDB_already: "db_open s \<Longrightarrow> ensureDB b s = Inr s"
  by (simp add: ensureDB_def)

lemma ensureDB_cases:
  "ensureDB b s =
     (if db_open s then Inr s
      else (case open_answer b of
              Succeeds \<Rightarrow> Inr (s\<lparr>db_open := True\<rparr>)
            | FiresError \<Rightarrow> Inl (Error ''Failed to open IndexedDB'')
            | Throws t \<Rightarrow> Inl t))"
  by (simp add: ensureDB_def initDB_def)

lemma storeVideoFile_Inr:
  assumes "storeVideoFile b file title description duration thumbnail s = (Inr videoId, s1)"
  shows "db_open s1 \<and> videoId = make_video_id b \<and> videoId \<notin> set (map sv_id (object_store s))
     \<and> object_store s1 = insort_key sv_id
          \<lparr>sv_id = videoId, sv_file = file, sv_title = title,
            sv_description = description, sv_uploadDate = upload_date b,
            sv_duration = duration, sv_thumbnail = thumbnail,
            sv_size = file_size file\<rparr> (object_store s)"
  using assms
  by (auto simp: storeVideoFile_def idb_add_def Let_def dest!: ensureDB_open
      split: sum.splits if_splits option.splits idb_answer.splits)

lemma getAllStoredVideos_Inr:
  "getAllStoredVideos b s = (Inr videos, s1) \<Longrightarrow>
     videos = object_store s \<and> db_open s1 \<and> object_store s1 = object_store s"
  by (auto simp: getAllStoredVideos_def dest!: ensureDB_open
      split: sum.splits if_splits idb_answer.splits)

lemma getStorageStats_Inr:
  "getStorageStats b s = (Inr st, s1) \<Longrightarrow>
     totalVideos st = length (object_store s) \<and> db_open s1 \<and> object_store s1 = object_store s"
  by (auto simp: getStorageStats_def Let_def dest!: getAllStoredVideos_Inr
      split: prod.splits sum.splits)

lemma getAllStoredVideos_ok:
  "(db_open s \<or> open_ok b) \<and> request_ok b \<Longrightarrow>
     getAllStoredVideos b s = (Inr (object_store s), s\<lparr>db_open := True\<rparr>)"
  by (auto simp: getAllStoredVideos_def ensureDB_cases open_ok_def request_ok_def)

lemma deleteStoredVideo_Inr:
  "deleteStoredVideo b videoId s = (Inr u, s1) \<Longrightarrow>
     db_open s1 \<and> object_store s1 = filter (\<lambda>v. sv_id v \<noteq> videoId) (object_store s)"
  by (auto simp: deleteStoredVideo_def dest!: ensureDB_open
      split: sum.splits if_splits idb_answer.splits)

text \<open>The invariant of the object store holds initially and every operation keeps it.\<close>

lemma store_inv_empty: "store_inv \<lparr>db_open = d, object_store = []\<rparr>"
  by (simp add: store_inv_def)

lemma distinct_ids_insort:
  "sv_id v \<notin> set (map sv_id st) \<Longrightarrow> distinct (map sv_id st) \<Longrightarrow>
     distinct (map sv_id (insort_key sv_id v st))"
  by (induction st) (auto simp: set_insort_key)

lemma store_inv_storeVideoFile:
  "store_inv s \<Longrightarrow> store_inv (snd (storeVideoFile b file title description duration thumbnail s))"
  by (auto simp: store_inv_def storeVideoFile_def idb_add_def Let_def ensureDB_cases
        intro!: distinct_ids_insort split: option.splits idb_answer.splits)

lemma store_inv_deleteStoredVideo:
  "store_inv s \<Longrightarrow> store_inv (snd (deleteStoredVideo b videoId s))"
  by (auto simp: store_inv_def deleteStoredVideo_def ensureDB_cases distinct_map_filter
      split: idb_answer.splits)

lemma store_inv_clearAllVideos: "store_inv s \<Longrightarrow> store_inv (snd (clearAllVideos b s))"
  by (auto simp: store_inv_def clearAllVideos_def ensureDB_cases split: idb_answer.splits)

lemma sample_put:
  "storeVideoFile online sample_file ''Test'' ''A clip'' 3 ''/default-thumbnail.jpg'' closed_empty
     = (Inr ''video_1700_k3x9'', open_one)"
  by (simp add: storeVideoFile_def online_def sample_file_def closed_empty_def open_one_def
      sample_video_def ensureDB_cases quota_check_def or_zero_def file_size_def
      make_video_id_def dec.simps idb_add_def Let_def)

text \<open>
  \<open>storeVideoFile\<close> returns the new id whenever the database is open or opens, the file
  passes the quota check, the id is not taken and the request succeeds; a file over nine
  tenths of the free space is refused.
\<close>

lemma storeVideoFile_succeeds:
  assumes "db_open s \<or> open_ok b" and "quota_check b file = None" and "request_ok b"
      and "make_video_id b \<notin> set (map sv_id (object_store s))"
  shows "fst (storeVideoFile b file title description duration thumbnail s) = Inr (make_video_id b)"
  using assms
  by (auto simp: storeVideoFile_def ensureDB_cases idb_add_def Let_def open_ok_def request_ok_def)

lemma sample_quota_exceeded:
  "fst (storeVideoFile (online\<lparr>estimate := Estimate (Some 10) (Some 9)\<rparr>) sample_file
          ''Test'' [] 3 ''/default-thumbnail.jpg'' closed_empty)
     = Inl (Error ''File too large. Available space: 0MB, File size: 0MB'')"
  by (simp add: storeVideoFile_def ensureDB_cases quota_check_def or_zero_def file_size_def
      sample_file_def online_def closed_empty_def show_int_def round_mb_def dec.simps)

text \<open>
  C1. When \<open>storeVideoFile\<close> has returned an id, \<open>getStoredVideo\<close> with that id (its request
  succeeding) returns a record that holds the file that was stored, and whose \<open>size\<close> field is
  the number of bytes of that file.
\<close>

theorem put_get_size:
  assumes "storeVideoFile b1 file title description duration thumbnail s = (Inr videoId, s1)"
      and "request_ok b2"
  shows "\<exists>video. getStoredVideo b2 videoId s1 = (Inr (Some video), s1)
           \<and> sv_file video = file
           \<and> sv_size video = length (file_bytes (sv_file video))"
proof -
  let ?v = "\<lparr>sv_id = videoId, sv_file = file, sv_title = title,
            sv_description = description, sv_uploadDate = upload_date b1,
            sv_duration = duration, sv_thumbnail = thumbnail,
            sv_size = file_size file\<rparr>"
  from storeVideoFile_Inr [OF assms(1)]
  have op: "db_open s1" and fresh: "sv_id ?v \<notin> set (map sv_id (object_store s))"
    and st: "object_store s1 = insort_key sv_id ?v (object_store s)"
    by auto
  have "find (\<lambda>x. sv_id x = videoId) (object_store s1) = Some ?v"
    using find_insort_fresh [OF fresh] st by simp
  then have "getStoredVideo b2 videoId s1 = (Inr (Some ?v), s1)"
    using op assms(2) by (simp add: getStoredVideo_def ensureDB_already request_ok_def)
  then show ?thesis by (simp add: file_size_def)
qed

theorem put_get_size_witness:
  "storeVideoFile online sample_file ''Test'' ''A clip'' 3 ''/default-thumbnail.jpg'' closed_empty
     = (Inr ''video_1700_k3x9'', open_one)
   \<and> request_ok online
   \<and> (\<exists>video. getStoredVideo online ''video_1700_k3x9'' open_one = (Inr (Some video), open_one)
           \<and> sv_file video = sample_file
           \<and> sv_size video = length (file_bytes (sv_file video)))"
proof -
  have ok: "request_ok online" by (simp add: online_def request_ok_def)
  from put_get_size [OF sample_put ok] sample_put ok show ?thesis by simp
qed

text \<open>
  C6. In a store that holds the id, once \<open>deleteStoredVideo\<close> has succeeded,
  \<open>getStoredVideo\<close> with that id returns null and \<open>getStorageStats().totalVideos\<close> is one
  less than it was before the delete (the requests of the two reads succeeding).
\<close>

theorem delete_then_absent:
  assumes inv: "store_inv s"
      and present: "videoId \<in> set (map sv_id (object_store s))"
      and before: "getStorageStats b0 s = (Inr before, s0)"
      and del: "deleteStoredVideo b1 videoId s0 = (Inr (), s1)"
      and ok2: "request_ok b2" and ok3: "request_ok b3"
  shows "getStoredVideo b2 videoId s1 = (Inr None, s1)
       \<and> (\<exists>after. getStorageStats b3 s1 = (Inr after, s1)
             \<and> totalVideos after + 1 = totalVideos before)"
proof -
  from getStorageStats_Inr [OF before]
  have n0: "totalVideos before = length (object_store s)"
    and st0: "object_store s0 = object_store s" by simp_all
  from deleteStoredVideo_Inr [OF del] st0
  have op: "db_open s1"
    and st1: "object_store s1 = filter (\<lambda>v. sv_id v \<noteq> videoId) (object_store s)" by simp_all
  have "videoId \<notin> set (map sv_id (object_store s1))"
    by (auto simp: st1)
  then have "find (\<lambda>x. sv_id x = videoId) (object_store s1) = None"
    by (rule find_absent)
  then have g: "getStoredVideo b2 videoId s1 = (Inr None, s1)"
    using op ok2 by (simp add: getStoredVideo_def ensureDB_already request_ok_def)
  have s1: "s1\<lparr>db_open := True\<rparr> = s1" using op by simp
  have "getAllStoredVideos b3 s1 = (Inr (object_store s1), s1)"
    using getAllStoredVideos_ok [of s1 b3] op ok3 s1 by simp
  then obtain after where a: "getStorageStats b3 s1 = (Inr after, s1)"
    and na: "totalVideos after = length (object_store s1)"
    by (simp add: getStorageStats_def Let_def)
  have "Suc (length (object_store s1)) = length (object_store s)"
    unfolding st1 using inv present by (intro length_filter_distinct) (simp_all add: store_inv_def)
  with a na n0 g show ?thesis by simp
qed

theorem delete_then_absent_witness:
  "store_inv open_one
   \<and> ''video_1700_k3x9'' \<in> set (map sv_id (object_store open_one))
   \<and> getStorageStats online open_one
       = (Inr \<lparr>totalVideos = 1, totalSize = 3, availableQuota = 1000, usedQuota = 10\<rparr>, open_one)
   \<and> deleteStoredVideo online ''video_1700_k3x9'' open_one = (Inr (), open_empty)
   \<and> request_ok online
   \<and> getStoredVideo online ''video_1700_k3x9'' open_empty = (Inr None, open_empty)
   \<and> (\<exists>after. getStorageStats online open_empty = (Inr after, open_empty)
         \<and> totalVideos after + 1 = 1)"
proof -
  have h1: "store_inv open_one"
    by (simp add: store_inv_def open_one_def)
  have h2: "''video_1700_k3x9'' \<in> set (map sv_id (object_store open_one))"
    by (simp add: open_one_def sample_video_def)
  have h3: "getStorageStats online open_one
       = (Inr \<lparr>totalVideos = 1, totalSize = 3, availableQuota = 1000, usedQuota = 10\<rparr>, open_one)"
    by (simp add: getStorageStats_def getAllStoredVideos_def ensureDB_cases online_def
        open_one_def sample_video_def or_zero_def)
  have h4: "deleteStoredVideo online ''video_1700_k3x9'' open_one = (Inr (), open_empty)"
    by (simp add: deleteStoredVideo_def ensureDB_cases online_def open_one_def open_empty_def
        sample_video_def)
  have h5: "request_ok online" by (simp add: online_def request_ok_def)
  from delete_then_absent [OF h1 h2 h3 h4 h5 h5] h1 h2 h3 h4 h5 show ?thesis by simp
qed

text \<open>
  C7, as the claim states it: for an id that is not in the store \<open>getStoredVideoUrl\<close> would
  return null and never throw. With no database handle yet and a browser whose
  \<open>indexedDB.open\<close> fires \<open>onerror\<close>, \<open>initDB\<close> rejects and the call throws.
\<close>

theorem getStoredVideoUrl_throws:
  "''video_1'' \<notin> set (map sv_id (object_store closed_empty))
   \<and> fst (getStoredVideoUrl no_indexeddb ''video_1'' closed_empty)
       = Inl (Error ''Failed to open IndexedDB'')"
  by (simp add: getStoredVideoUrl_def getStoredVideo_def ensureDB_cases no_indexeddb_def
      online_def closed_empty_def)

text \<open>
  C7, amended. For an id that is not in the store \<open>getStoredVideoUrl\<close> never returns a URL:
  it returns null when the database is open or opens and the read request succeeds.
  Otherwise it throws: the error of \<open>initDB\<close> or of \<open>getStoredVideo\<close> when the request
  fires \<open>onerror\<close>, and the value thrown when \<open>indexedDB.open\<close> or a call on the database
  throws.
\<close>

theorem getStoredVideoUrl_absent:
  assumes "videoId \<notin> set (map sv_id (object_store s))"
  shows "fst (getStoredVideoUrl b videoId s) =
           (if \<not> db_open s \<and> open_answer b \<noteq> Succeeds
            then (case open_answer b of
                    Throws t \<Rightarrow> Inl t
                  | _ \<Rightarrow> Inl (Error ''Failed to open IndexedDB''))
            else (case request_answer b of
                    Succeeds \<Rightarrow> Inr None
                  | FiresError \<Rightarrow> Inl (Error ''Failed to retrieve video'')
                  | Throws t \<Rightarrow> Inl t))"
  using find_absent [OF assms]
  by (simp add: getStoredVideoUrl_def getStoredVideo_def ensureDB_cases split: idb_answer.splits)

theorem getStoredVideoUrl_absent_witness:
  "''video_1'' \<notin> set (map sv_id (object_store open_one))
   \<and> fst (getStoredVideoUrl online ''video_1'' open_one) = Inr None
   \<and> ''video_1'' \<notin> set (map sv_id (object_store closed_two))
   \<and> fst (getStoredVideoUrl online ''video_1'' closed_two) = Inr None
   \<and> fst (getStoredVideoUrl (online\<lparr>request_answer := FiresError\<rparr>) ''video_1'' closed_two)
       = Inl (Error ''Failed to retrieve video'')
   \<and> fst (getStoredVideoUrl
             (online\<lparr>open_answer := Throws (Error ''indexedDB is not defined'')\<rparr>)
             ''video_1'' closed_two)
       = Inl (Error ''indexedDB is not defined'')"
proof -
  have h1: "''video_1'' \<notin> set (map sv_id (object_store open_one))"
    by (simp add: open_one_def sample_video_def)
  have h2: "''video_1'' \<notin> set (map sv_id (object_store closed_two))"
    by (simp add: closed_two_def sample_video_def second_video_def)
  from getStoredVideoUrl_absent [OF h1, of online]
  have a: "fst (getStoredVideoUrl online ''video_1'' open_one) = Inr None"
    by (simp add: online_def open_one_def)
  from getStoredVideoUrl_absent [OF h2, of online]
  have b: "fst (getStoredVideoUrl online ''video_1'' closed_two) = Inr None"
    by (simp add: online_def closed_two_def)
  from getStoredVideoUrl_absent [OF h2, of "online\<lparr>request_answer := FiresError\<rparr>"]
  have c: "fst (getStoredVideoUrl (online\<lparr>request_answer := FiresError\<rparr>) ''video_1'' closed_two)
       = Inl (Error ''Failed to retrieve video'')"
    by (simp add: online_def closed_two_def)
  from getStoredVideoUrl_absent [OF h2,
      of "online\<lparr>open_answer := Throws (Error ''indexedDB is not defined'')\<rparr>"]
  have d: "fst (getStoredVideoUrl
             (online\<lparr>open_answer := Throws (Error ''indexedDB is not defined'')\<rparr>)
             ''video_1'' closed_two)
       = Inl (Error ''indexedDB is not defined'')"
    by (simp add: online_def closed_two_def)
  from h1 h2 a b c d show ?thesis by blast
qed

text \<open>
  C8. In every state of the store, when the database is open or can be opened and the
  requests succeed, \<open>getStorageStats().totalVideos\<close> is the number of records that
  \<open>getAllStoredVideos\<close> returns.
\<close>

theorem stats_count_getAll:
  assumes "(db_open s \<or> open_ok b1) \<and> request_ok b1"
      and "(db_open s \<or> open_ok b2) \<and> request_ok b2"
  shows "\<exists>st videos. fst (getStorageStats b1 s) = Inr st
           \<and> fst (getAllStoredVideos b2 s) = Inr videos
           \<and> totalVideos st = length videos"
  using getAllStoredVideos_ok [OF assms(1)] getAllStoredVideos_ok [OF assms(2)]
  by (simp add: getStorageStats_def Let_def)

theorem stats_count_getAll_witness:
  "((db_open closed_two \<or> open_ok online) \<and> request_ok online)
   \<and> fst (getStorageStats online closed_two)
       = Inr \<lparr>totalVideos = 2, totalSize = 6, availableQuota = 1000, usedQuota = 10\<rparr>
   \<and> fst (getAllStoredVideos online closed_two) = Inr [sample_video, second_video]
   \<and> (\<exists>st videos. fst (getStorageStats online closed_two) = Inr st
           \<and> fst (getAllStoredVideos online closed_two) = Inr videos
           \<and> totalVideos st = length videos \<and> length videos = 2)"
proof -
  have h: "(db_open closed_two \<or> open_ok online) \<and> request_ok online"
    by (simp add: online_def open_ok_def request_ok_def)
  have all: "fst (getAllStoredVideos online closed_two) = Inr [sample_video, second_video]"
    by (simp add: getAllStoredVideos_def ensureDB_cases online_def closed_two_def)
  have stats: "fst (getStorageStats online closed_two)
       = Inr \<lparr>totalVideos = 2, totalSize = 6, availableQuota = 1000, usedQuota = 10\<rparr>"
    by (simp add: getStorageStats_def getAllStoredVideos_def ensureDB_cases online_def
        closed_two_def sample_video_def second_video_def or_zero_def)
  from stats_count_getAll [OF h h] all
  have "\<exists>st videos. fst (getStorageStats online closed_two) = Inr st
           \<and> fst (getAllStoredVideos online closed_two) = Inr videos
           \<and> totalVideos st = length videos \<and> length videos = 2"
    by auto
  with h all stats show ?thesis by blast
qed

text \<open>When the read fails, both calls throw the same error.\<close>

lemma stats_fails_with_getAll:
  "fst (getAllStoredVideos b s) = Inl err \<Longrightarrow> fst (getStorageStats b s) = Inl err"
  by (auto simp: getStorageStats_def split: prod.splits sum.splits)

section \<open>Properties of the user service and of the hook\<close>

lemma stored_wishlist_add:
  "stored_wishlist u (snd (UserService_addToWishlist a userId videoId ls)) =
     (if u = userId \<and> read_ok a \<and> write_ok a \<and> videoId \<notin> set (stored_wishlist userId ls)
      then stored_wishlist userId ls @ [videoId] else stored_wishlist u ls)"
  by (auto simp: UserService_addToWishlist_def getUserWishlist_def stored_wishlist_def
      split: option.splits)

lemma stored_wishlist_remove:
  "stored_wishlist u (snd (removeFromWishlist a userId videoId ls)) =
     (if u = userId \<and> read_ok a \<and> write_ok a
      then filter (\<lambda>i. i \<noteq> videoId) (stored_wishlist userId ls) else stored_wishlist u ls)"
  by (auto simp: removeFromWishlist_def getUserWishlist_def stored_wishlist_def Let_def
      split: option.splits)

lemma stored_wishlist_watch:
  "stored_wishlist u (snd (UserService_addToWatchHistory a userId videoId ls))
     = stored_wishlist u ls"
  by (auto simp: UserService_addToWatchHistory_def getWatchHistory_def stored_wishlist_def
      Let_def split: option.splits)

lemma written_distinct: "written_by_service ls \<Longrightarrow> distinct (stored_wishlist u ls)"
proof (induction arbitrary: u rule: written_by_service.induct)
  case fresh
  show ?case by (simp add: stored_wishlist_def)
next
  case (add ls a userId videoId)
  then show ?case by (simp add: stored_wishlist_add)
next
  case (remove ls a userId videoId)
  then show ?case by (simp add: stored_wishlist_remove)
next
  case (watch ls a userId videoId)
  then show ?case by (simp add: stored_wishlist_watch)
qed

lemma one_wish_added:
  "snd (UserService_addToWishlist storage_ok ''u1'' ''v1'' Map.empty) = one_wish"
  by (simp add: UserService_addToWishlist_def getUserWishlist_def storage_ok_def one_wish_def)

lemma one_wish_written: "written_by_service one_wish"
  using written_by_service.add [OF written_by_service.fresh, of storage_ok "''u1''" "''v1''"]
  by (simp add: one_wish_added)

text \<open>
  C9. When the video id is already in the stored wishlist of the user, \<open>addToWishlist\<close>
  writes nothing: \<open>localStorage\<close> is as before. A call that has succeeded leaves the id in
  the list, so a second call leaves what the first one left. The wishlist of a storage that
  the service has written from an empty one holds no id twice, before and after the call.
\<close>

theorem addToWishlist_idempotent:
  "(videoId \<in> set (stored_wishlist userId ls) \<longrightarrow>
      UserService_addToWishlist a userId videoId ls
        = (if read_ok a then Inr () else Inl (Error ''Failed to add to wishlist''), ls))
   \<and> (fst (UserService_addToWishlist a userId videoId ls) = Inr () \<longrightarrow>
        videoId \<in> set (stored_wishlist userId (snd (UserService_addToWishlist a userId videoId ls)))
        \<and> snd (UserService_addToWishlist a2 userId videoId
                 (snd (UserService_addToWishlist a userId videoId ls)))
            = snd (UserService_addToWishlist a userId videoId ls))
   \<and> (written_by_service ls \<longrightarrow>
        distinct (stored_wishlist userId ls)
        \<and> distinct (stored_wishlist userId (snd (UserService_addToWishlist a userId videoId ls))))"
proof (intro conjI impI)
  assume "videoId \<in> set (stored_wishlist userId ls)"
  then show "UserService_addToWishlist a userId videoId ls
        = (if read_ok a then Inr () else Inl (Error ''Failed to add to wishlist''), ls)"
    by (auto simp: UserService_addToWishlist_def getUserWishlist_def stored_wishlist_def
      split: option.splits)
next
  assume ok: "fst (UserService_addToWishlist a userId videoId ls) = Inr ()"
  then show m: "videoId \<in> set (stored_wishlist userId
                    (snd (UserService_addToWishlist a userId videoId ls)))"
    by (auto simp: UserService_addToWishlist_def getUserWishlist_def stored_wishlist_def
      split: option.splits if_splits)
  then show "snd (UserService_addToWishlist a2 userId videoId
                 (snd (UserService_addToWishlist a userId videoId ls)))
            = snd (UserService_addToWishlist a userId videoId ls)"
    by (auto simp: UserService_addToWishlist_def [of a2] getUserWishlist_def stored_wishlist_def
      split: option.splits if_splits)
next
  assume w: "written_by_service ls"
  then show "distinct (stored_wishlist userId ls)"
    by (rule written_distinct)
  from w have "written_by_service (snd (UserService_addToWishlist a userId videoId ls))"
    by (rule written_by_service.add)
  then show "distinct (stored_wishlist userId
                (snd (UserService_addToWishlist a userId videoId ls)))"
    by (rule written_distinct)
qed

theorem addToWishlist_idempotent_witness:
  "''v1'' \<in> set (stored_wishlist ''u1'' one_wish)
   \<and> written_by_service one_wish
   \<and> UserService_addToWishlist storage_ok ''u1'' ''v1'' one_wish = (Inr (), one_wish)
   \<and> snd (UserService_addToWishlist storage_ok ''u1'' ''v1''
            (snd (UserService_addToWishlist storage_ok ''u1'' ''v1'' one_wish))) = one_wish
   \<and> distinct (stored_wishlist ''u1'' (snd (UserService_addToWishlist storage_ok ''u1'' ''v1'' one_wish)))"
proof -
  have h1: "''v1'' \<in> set (stored_wishlist ''u1'' one_wish)"
    by (simp add: stored_wishlist_def one_wish_def)
  have h2: "read_ok storage_ok" by (simp add: storage_ok_def)
  from addToWishlist_idempotent [of "''v1''" "''u1''" one_wish storage_ok storage_ok]
    h1 h2 one_wish_written
  show ?thesis by simp
qed

lemma distinct_take_cons_filter:
  "distinct xs \<Longrightarrow> distinct (take n (v # filter (\<lambda>i. i \<noteq> v) xs))"
  by (rule distinct_take) simp

text \<open>
  The stored watch history of a storage that the service has written holds no id twice and
  at most 50 ids.
\<close>

lemma stored_history_add:
  "stored_history u (snd (UserService_addToWishlist a userId videoId ls)) = stored_history u ls"
  by (auto simp: UserService_addToWishlist_def getUserWishlist_def stored_history_def
      split: option.splits)

lemma stored_history_remove:
  "stored_history u (snd (removeFromWishlist a userId videoId ls)) = stored_history u ls"
  by (auto simp: removeFromWishlist_def getUserWishlist_def stored_history_def Let_def
      split: option.splits)

lemma stored_history_watch:
  "stored_history u (snd (UserService_addToWatchHistory a userId videoId ls)) =
     (if u = userId \<and> read_ok a \<and> write_ok a
      then take 50 (videoId # filter (\<lambda>i. i \<noteq> videoId) (stored_history userId ls))
      else stored_history u ls)"
  by (auto simp: UserService_addToWatchHistory_def getWatchHistory_def stored_history_def
      Let_def split: option.splits)

lemma written_history:
  "written_by_service ls \<Longrightarrow>
     distinct (stored_history u ls) \<and> length (stored_history u ls) \<le> 50"
proof (induction arbitrary: u rule: written_by_service.induct)
  case fresh
  show ?case by (simp add: stored_history_def)
next
  case (add ls a userId videoId)
  then show ?case by (simp add: stored_history_add)
next
  case (remove ls a userId videoId)
  then show ?case by (simp add: stored_history_remove)
next
  case (watch ls a userId videoId)
  have "distinct (take 50 (videoId # filter (\<lambda>i. i \<noteq> videoId) (stored_history userId ls)))"
    using watch.IH [of userId] by (intro distinct_take_cons_filter) simp
  moreover have
    "length (take 50 (videoId # filter (\<lambda>i. i \<noteq> videoId) (stored_history userId ls))) \<le> 50"
    by simp
  ultimately show ?case
    using watch.IH [of u] unfolding stored_history_watch by presburger
qed

lemma getWatchHistory_Inr:
  "getWatchHistory a userId ls = Inr history \<Longrightarrow> history = stored_history userId ls"
  by (auto simp: getWatchHistory_def stored_history_def split: if_splits)

lemma hook_inv_loadUserData: "hook_inv st \<Longrightarrow> hook_inv (loadUserData a1 a2 usr st)"
  by (auto simp: hook_inv_def loadUserData_def written_history dest!: getWatchHistory_Inr
      split: prod.splits option.splits sum.splits)

lemma hook_inv_userDataEffect:
  "hook_inv st \<Longrightarrow> hook_inv (userDataEffect a1 a2 isAuthenticated usr st)"
  using hook_inv_loadUserData [of st a1 a2 usr]
  by (auto simp: userDataEffect_def hook_inv_def)

lemma hook_inv_addToWishlist:
  "hook_inv st \<Longrightarrow> hook_inv (addToWishlist a isAuthenticated usr videoId st)"
proof -
  assume inv: "hook_inv st"
  obtain ls h where st: "st = (ls, h)" by (cases st)
  have r: "written_by_service (snd (removeFromWishlist a u videoId ls))"
    and d: "written_by_service (snd (UserService_addToWishlist a u videoId ls))" for u
    using inv st by (auto simp: hook_inv_def intro: written_by_service.intros)
  show ?thesis
    using inv r d unfolding st hook_inv_def addToWishlist_def
    by (auto split: option.splits prod.splits sum.splits dest: sndI [THEN sym])
qed

lemma hook_inv_addToWatchHistory:
  "hook_inv st \<Longrightarrow> hook_inv (addToWatchHistory a isAuthenticated usr videoId st)"
proof -
  assume inv: "hook_inv st"
  obtain ls h where st: "st = (ls, h)" by (cases st)
  have w: "written_by_service (snd (UserService_addToWatchHistory a u videoId ls))" for u
    using inv st by (auto simp: hook_inv_def intro: written_by_service.intros)
  have d: "distinct (take 50 (videoId # filter (\<lambda>i. i \<noteq> videoId) (watchHistory h)))"
    using inv st by (intro distinct_take_cons_filter) (simp add: hook_inv_def)
  have l: "length (take 50 (videoId # filter (\<lambda>i. i \<noteq> videoId) (watchHistory h))) \<le> 50"
    by simp
  show ?thesis
  proof (cases usr)
    case None
    with inv st show ?thesis by (simp add: addToWatchHistory_def)
  next
    case (Some u)
    obtain res ls1 where call: "UserService_addToWatchHistory a (user_id u) videoId ls = (res, ls1)"
      by (cases "UserService_addToWatchHistory a (user_id u) videoId ls")
    with w [of "user_id u"] have w1: "written_by_service ls1" by simp
    show ?thesis
      using inv st Some call w1 d l
      by (cases res) (simp_all add: addToWatchHistory_def hook_inv_def del: take_Cons_numeral)
  qed
qed

lemma hook_reachable_inv: "hook_reachable st \<Longrightarrow> hook_inv st"
proof (induction rule: hook_reachable.induct)
  case (mounted ls)
  then show ?case by (simp add: hook_inv_def)
next
  case (effect st a1 a2 isAuthenticated usr)
  then show ?case by (simp add: hook_inv_userDataEffect)
next
  case (toggled st a isAuthenticated usr videoId)
  then show ?case by (simp add: hook_inv_addToWishlist)
next
  case (watched st a isAuthenticated usr videoId)
  then show ?case by (simp add: hook_inv_addToWatchHistory)
next
  case (elsewhere_added ls h a userId videoId)
  then show ?case by (auto simp: hook_inv_def intro: written_by_service.intros)
next
  case (elsewhere_removed ls h a userId videoId)
  then show ?case by (auto simp: hook_inv_def intro: written_by_service.intros)
next
  case (elsewhere_watched ls h a userId videoId)
  then show ?case by (auto simp: hook_inv_def intro: written_by_service.intros)
qed

text \<open>
  C10, as the claim states it: after every call the list would start with the id just
  watched. For a visitor who is not logged in the hook returns at once and the list stays
  empty.
\<close>

theorem addToWatchHistory_visitor:
  "watchHistory (snd (addToWatchHistory storage_ok False None ''v1'' (Map.empty, visitor))) = []
   \<and> take 1 (watchHistory (snd (addToWatchHistory storage_ok False None ''v1''
                (Map.empty, visitor)))) \<noteq> [''v1'']"
  by (simp add: addToWatchHistory_def visitor_def)

text \<open>
  C10, amended. After every call of \<open>addToWatchHistory\<close>, in every state of the hook, the
  watch history in memory holds no id twice and at most 50 ids. When the user is logged in
  and the service call has succeeded, the list is the id just watched followed by the
  former list without that id, cut to 50 entries, so that id is first. When the caller is
  not logged in, or the service call throws, the list is left as it was.
\<close>

theorem watch_history_after_add:
  assumes "hook_reachable (ls, h)"
  shows "distinct (watchHistory (snd (addToWatchHistory a isAuthenticated usr videoId (ls, h))))
       \<and> length (watchHistory (snd (addToWatchHistory a isAuthenticated usr videoId (ls, h)))) \<le> 50
       \<and> (isAuthenticated \<and> usr = Some u
            \<and> fst (UserService_addToWatchHistory a (user_id u) videoId ls) = Inr () \<longrightarrow>
            watchHistory (snd (addToWatchHistory a isAuthenticated usr videoId (ls, h)))
              = take 50 (videoId # filter (\<lambda>i. i \<noteq> videoId) (watchHistory h))
          \<and> take 1 (watchHistory (snd (addToWatchHistory a isAuthenticated usr videoId (ls, h))))
              = [videoId])
       \<and> (\<not> isAuthenticated \<or> usr = None
            \<or> (usr = Some u
                \<and> fst (UserService_addToWatchHistory a (user_id u) videoId ls) \<noteq> Inr ()) \<longrightarrow>
            watchHistory (snd (addToWatchHistory a isAuthenticated usr videoId (ls, h)))
              = watchHistory h)"
proof -
  have "hook_reachable (addToWatchHistory a isAuthenticated usr videoId (ls, h))"
    using assms by (rule hook_reachable.watched)
  then have "hook_inv (addToWatchHistory a isAuthenticated usr videoId (ls, h))"
    by (rule hook_reachable_inv)
  then have inv: "distinct (watchHistory (snd (addToWatchHistory a isAuthenticated usr videoId (ls, h))))
       \<and> length (watchHistory (snd (addToWatchHistory a isAuthenticated usr videoId (ls, h)))) \<le> 50"
    by (simp add: hook_inv_def)
  let ?new = "take 50 (videoId # filter (\<lambda>i. i \<noteq> videoId) (watchHistory h))"
  have first: "take 1 ?new = [videoId]" by simp
  have updated: "watchHistory (snd (addToWatchHistory a isAuthenticated usr videoId (ls, h))) = ?new"
    if "isAuthenticated" "usr = Some u"
       "fst (UserService_addToWatchHistory a (user_id u) videoId ls) = Inr ()"
    using that by (auto simp: addToWatchHistory_def split: prod.splits sum.splits)
  have same: "watchHistory (snd (addToWatchHistory a isAuthenticated usr videoId (ls, h)))
                = watchHistory h"
    if "\<not> isAuthenticated \<or> usr = None
          \<or> (usr = Some u
              \<and> fst (UserService_addToWatchHistory a (user_id u) videoId ls) \<noteq> Inr ())"
    using that by (auto simp: addToWatchHistory_def split: option.splits prod.splits sum.splits)
  from inv first updated same show ?thesis by metis
qed

lemma history_two_reachable: "hook_reachable (history_two, watched_two)"
proof -
  have w: "written_by_service history_two"
  proof -
    have "written_by_service
            (snd (UserService_addToWatchHistory storage_ok ''u1'' ''v1''
               (snd (UserService_addToWatchHistory storage_ok ''u1'' ''v2'' Map.empty))))"
      by (intro written_by_service.intros)
    moreover have "snd (UserService_addToWatchHistory storage_ok ''u1'' ''v1''
               (snd (UserService_addToWatchHistory storage_ok ''u1'' ''v2'' Map.empty)))
             = history_two"
      by (simp add: UserService_addToWatchHistory_def getWatchHistory_def storage_ok_def
          history_two_def)
    ultimately show ?thesis by simp
  qed
  have "hook_reachable (userDataEffect storage_ok storage_ok True (Some alice)
          (history_two, \<lparr>wishlist = [], watchHistory = []\<rparr>))"
    by (intro hook_reachable.effect hook_reachable.mounted w)
  moreover have "userDataEffect storage_ok storage_ok True (Some alice)
          (history_two, \<lparr>wishlist = [], watchHistory = []\<rparr>) = (history_two, watched_two)"
    by (simp add: userDataEffect_def loadUserData_def getUserWishlist_def getWatchHistory_def
        storage_ok_def alice_def history_two_def watched_two_def)
  ultimately show ?thesis by simp
qed

theorem watch_history_after_add_witness:
  "hook_reachable (history_two, watched_two)
   \<and> fst (UserService_addToWatchHistory storage_ok (user_id alice) ''v2'' history_two) = Inr ()
   \<and> watchHistory (snd (addToWatchHistory storage_ok True (Some alice) ''v2''
        (history_two, watched_two))) = [''v2'', ''v1'']
   \<and> distinct (watchHistory (snd (addToWatchHistory storage_ok True (Some alice) ''v2''
        (history_two, watched_two))))
   \<and> length (watchHistory (snd (addToWatchHistory storage_ok True (Some alice) ''v2''
        (history_two, watched_two)))) \<le> 50
   \<and> watchHistory (snd (addToWatchHistory storage_ok False None ''v2''
        (history_two, watched_two))) = [''v1'', ''v2'']
   \<and> distinct (watchHistory (snd (addToWatchHistory storage_ok False None ''v2''
        (history_two, watched_two))))"
proof -
  note r = history_two_reachable
  have ok: "fst (UserService_addToWatchHistory storage_ok (user_id alice) ''v2'' history_two) = Inr ()"
    by (simp add: UserService_addToWatchHistory_def getWatchHistory_def storage_ok_def)
  have h: "watchHistory watched_two = [''v1'', ''v2'']"
    by (simp add: watched_two_def)
  from watch_history_after_add [OF r, of storage_ok True "Some alice" "''v2''" alice] ok h
  have a: "watchHistory (snd (addToWatchHistory storage_ok True (Some alice) ''v2''
        (history_two, watched_two))) = [''v2'', ''v1'']
      \<and> distinct (watchHistory (snd (addToWatchHistory storage_ok True (Some alice) ''v2''
        (history_two, watched_two))))
      \<and> length (watchHistory (snd (addToWatchHistory storage_ok True (Some alice) ''v2''
        (history_two, watched_two)))) \<le> 50"
    by simp
  from watch_history_after_add [OF r, of storage_ok False None "''v2''" alice] h
  have b: "watchHistory (snd (addToWatchHistory storage_ok False None ''v2''
        (history_two, watched_two))) = [''v1'', ''v2'']
      \<and> distinct (watchHistory (snd (addToWatchHistory storage_ok False None ''v2''
        (history_two, watched_two))))"
    by simp
  from r ok a b show ?thesis by blast
qed

section \<open>Properties of the upload dialog\<close>

lemma toast_error_fields [simp]:
  "store (toast_error m w) = store w" "mockVideos (toast_error m w) = mockVideos w"
  "effects (toast_error m w) = effects w" "toasts (toast_error m w) = toasts w @ [ToastError m]"
  "videoFile (toast_error m w) = videoFile w" "isUploading (toast_error m w) = isUploading w"
  by (simp_all add: toast_error_def)

lemma call_fields [simp]:
  "store (call f e w) = store w" "mockVideos (call f e w) = mockVideos w"
  "effects (call f e w) = effects w @ [(f, e)]" "toasts (call f e w) = toasts w"
  "formData (call f e w) = formData w" "thumbnailFile (call f e w) = thumbnailFile w"
  "isUploading (call f e w) = isUploading w"
  by (simp_all add: call_def)

lemma catch_finally_fields [simp]:
  "store (catch_finally t w) = store w" "mockVideos (catch_finally t w) = mockVideos w"
  "effects (catch_finally t w) = effects w"
  "toasts (catch_finally t w) = toasts w @ [ToastError (catch_message t)]"
  "isUploading (catch_finally t w) = False"
  by (simp_all add: catch_finally_def toast_error_def)

lemmas run_defs = handleSubmit_def dialog_def file_size_def sample_file_def maxSize_def
  startsWith_def trim_def is_space_def initial_form_def alice_def derive_thumbnail_def
  call_def answers_def extract_duration_def persist_def online_def closed_empty_def
  storeVideoFile_def ensureDB_cases quota_check_def or_zero_def make_video_id_def dec.simps
  idb_add_def Let_def uploadVideo_def or_string_def or_else_def toast_error_def
  catch_finally_def catch_message_def

text \<open>A run of the dialog that uploads, and one whose duration step rejects.\<close>

lemma sample_upload:
  "handleSubmit answers dialog =
   dialog\<lparr>formData := initial_form, videoFile := None, isUploading := False, uploadProgress := 0,
     store := \<lparr>db_open = True, object_store = [uploaded_record]\<rparr>,
     mockVideos := [uploaded_entry], refreshTrigger := 1,
     toasts := [ToastSuccess ''Video uploaded successfully!''],
     effects := map (Pair sample_file)
                  [SimulateUpload, GenerateVideoThumbnail, GetVideoDuration, StoreVideoFile,
                   UploadVideo, TriggerRefresh, OnVideoUploaded, OnClose]\<rparr>"
  by (simp add: run_defs uploaded_entry_def uploaded_record_def)

lemma sample_duration_rejects:
  "handleSubmit (answers\<lparr>video_duration := Rejected (Error ''Failed to load video duration'')\<rparr>)
     dialog =
   dialog\<lparr>isUploading := False, uploadProgress := 100,
     toasts := [ToastError
        ''Failed to extract video duration. Please try with a different video format.''],
     effects := map (Pair sample_file)
                  [SimulateUpload, GenerateVideoThumbnail, GetVideoDuration]\<rparr>"
  by (simp add: run_defs)

text \<open>
  C2, as the claim states it: a file over the ceiling would always be rejected as too large.
  \<open>handleSubmit\<close> checks the login first: without a user, the rejection is the login
  message.
\<close>

theorem oversize_without_login:
  "videoFile (dialog\<lparr>user := None, videoFile := Some big_file\<rparr>) = Some big_file
   \<and> file_size big_file > maxSize
   \<and> toasts (handleSubmit answers (dialog\<lparr>user := None, videoFile := Some big_file\<rparr>))
       = [ToastError ''Please log in to upload videos'']"
  by (simp add: handleSubmit_def dialog_def file_size_def big_file_def maxSize_def)

text \<open>
  The dialog of the instances, reached from the mounted one by typing the title and the
  tags and selecting the file.
\<close>

lemma dialog_reachable_dialog: "dialog_reachable dialog"
proof -
  have "dialog_reachable mounted_dialog"
    unfolding mounted_dialog_def by (rule dialog_reachable.mounted)
  then have "dialog_reachable
      (handleVideoFileChange (Some sample_file)
         (handleInputChange ''tags'' ''a, b'' (handleInputChange ''title'' ''Test'' mounted_dialog)))"
    by (intro dialog_reachable.video dialog_reachable.input)
  moreover have "handleVideoFileChange (Some sample_file)
         (handleInputChange ''tags'' ''a, b'' (handleInputChange ''title'' ''Test'' mounted_dialog))
       = dialog"
    by (simp add: handleVideoFileChange_def handleInputChange_def mounted_dialog_def dialog_def
        file_size_def sample_file_def startsWith_def Let_def)
  ultimately show ?thesis by simp
qed

lemma persist_effects:
  "\<exists>new. effects (persist q u file thumbnailUrl d w) = effects w @ map (Pair file) new"
proof (cases "storeVideoFile (store_browser q) file (fd_title (formData w))
             (fd_description (formData w)) d thumbnailUrl (store w)")
  case (Pair res s1)
  show ?thesis
  proof (cases res)
    case (Inl err)
    with Pair have "effects (persist q u file thumbnailUrl d w)
        = effects w @ map (Pair file) [StoreVideoFile]"
      by (simp add: persist_def)
    then show ?thesis by blast
  next
    case (Inr videoId)
    with Pair have "effects (persist q u file thumbnailUrl d w)
        = effects w @ map (Pair file)
            [StoreVideoFile, UploadVideo, TriggerRefresh, OnVideoUploaded, OnClose]"
      by (simp add: persist_def Let_def)
    then show ?thesis by blast
  qed
qed

lemma persist_videoFile:
  "videoFile (persist q u file thumbnailUrl d w) = None
   \<or> videoFile (persist q u file thumbnailUrl d w) = videoFile w"
  by (auto simp: persist_def Let_def catch_finally_def toast_error_def call_def
      split: prod.splits sum.splits)

lemma extract_duration_effects:
  "\<exists>new. effects (extract_duration q u file thumbnailUrl w) = effects w @ map (Pair file) new"
proof (cases "video_duration q")
  case (Resolved d)
  from persist_effects [of q u "file" thumbnailUrl d "call file GetVideoDuration w"]
  obtain new where "effects (persist q u file thumbnailUrl d (call file GetVideoDuration w))
      = effects w @ map (Pair file) (GetVideoDuration # new)"
    by auto
  with Resolved show ?thesis
    unfolding extract_duration_def Let_def by (simp only: promise.case) blast
next
  case (Rejected err)
  then have "effects (extract_duration q u file thumbnailUrl w)
      = effects w @ map (Pair file) [GetVideoDuration]"
    by (simp add: extract_duration_def)
  then show ?thesis by blast
next
  case Pending
  then have "effects (extract_duration q u file thumbnailUrl w)
      = effects w @ map (Pair file) [GetVideoDuration]"
    by (simp add: extract_duration_def)
  then show ?thesis by blast
qed

lemma extract_duration_videoFile:
  "videoFile (extract_duration q u file thumbnailUrl w) = None
   \<or> videoFile (extract_duration q u file thumbnailUrl w) = videoFile w"
  using persist_videoFile [of q u "file" thumbnailUrl _ "call file GetVideoDuration w"]
  by (auto simp: extract_duration_def Let_def catch_finally_def toast_error_def call_def
      split: promise.splits)

lemma derive_thumbnail_effects:
  "\<exists>new. effects (derive_thumbnail q u file w) = effects w @ map (Pair file) new"
proof -
  have step: "\<exists>new. effects (extract_duration q u file t (call file e w))
                = effects w @ map (Pair file) new" for t e
  proof -
    from extract_duration_effects [of q u "file" t "call file e w"]
    obtain new where "effects (extract_duration q u file t (call file e w))
        = effects w @ map (Pair file) (e # new)"
      by auto
    then show ?thesis by blast
  qed
  have one: "\<exists>new. [(file, e)] = map (Pair file) new" for e
    by (rule exI [of _ "[e]"]) simp
  show ?thesis
    unfolding derive_thumbnail_def Let_def
    by (auto split: option.splits promise.splits intro: step one)
qed

lemma derive_thumbnail_videoFile:
  "videoFile (derive_thumbnail q u file w) = None
   \<or> videoFile (derive_thumbnail q u file w) = videoFile w"
proof -
  have "videoFile (extract_duration q u file t (call file e w)) = None
      \<or> videoFile (extract_duration q u file t (call file e w)) = videoFile w" for t e
    using extract_duration_videoFile [of q u "file" t "call file e w"]
    by (simp add: call_def)
  then show ?thesis
    unfolding derive_thumbnail_def Let_def
    by (auto simp: catch_finally_def toast_error_def call_def
        split: option.splits promise.splits)
qed

lemma handleSubmit_steps:
  "(\<exists>m. handleSubmit q w = toast_error m w)
   \<or> (\<exists>u file. videoFile w = Some file \<and> startsWith (file_type file) ''video/''
        \<and> handleSubmit q w = derive_thumbnail q u file
             (call file SimulateUpload (w\<lparr>isUploading := True, uploadProgress := 100\<rparr>)))"
  by (auto simp: handleSubmit_def split: option.splits if_splits)

lemma dialog_inv_handleSubmit: "dialog_inv w \<Longrightarrow> dialog_inv (handleSubmit q w)"
proof -
  assume inv: "dialog_inv w"
  from handleSubmit_steps [of q w] show ?thesis
  proof
    assume "\<exists>m. handleSubmit q w = toast_error m w"
    then obtain m where "handleSubmit q w = toast_error m w" by blast
    then have "videoFile (handleSubmit q w) = videoFile w"
      and "effects (handleSubmit q w) = effects w"
      by simp_all
    with inv show ?thesis by (simp add: dialog_inv_def)
  next
    assume "\<exists>u file. videoFile w = Some file \<and> startsWith (file_type file) ''video/''
        \<and> handleSubmit q w = derive_thumbnail q u file
             (call file SimulateUpload (w\<lparr>isUploading := True, uploadProgress := 100\<rparr>))"
    then obtain u selected where f: "videoFile w = Some selected"
      and v: "startsWith (file_type selected) ''video/''"
      and run: "handleSubmit q w = derive_thumbnail q u selected
             (call selected SimulateUpload (w\<lparr>isUploading := True, uploadProgress := 100\<rparr>))"
      by blast
    let ?w1 = "call selected SimulateUpload (w\<lparr>isUploading := True, uploadProgress := 100\<rparr>)"
    from derive_thumbnail_effects [of q u selected ?w1]
    obtain new where e: "effects (handleSubmit q w)
        = effects w @ map (Pair selected) (SimulateUpload # new)"
      unfolding run by auto
    from derive_thumbnail_videoFile [of q u selected ?w1]
    have vf: "videoFile (handleSubmit q w) = None \<or> videoFile (handleSubmit q w) = videoFile w"
      unfolding run by (simp add: call_def)
    have "list_all (\<lambda>c. startsWith (file_type (fst c)) ''video/'') (effects (handleSubmit q w))"
      using inv v unfolding e dialog_inv_def by (auto simp: list_all_iff)
    moreover have "case videoFile (handleSubmit q w) of
         None \<Rightarrow> True
       | Some f \<Rightarrow> startsWith (file_type f) ''video/'' \<and> file_size f \<le> 500 * 1024 * 1024"
      using vf inv by (auto simp: dialog_inv_def)
    ultimately show ?thesis by (simp add: dialog_inv_def)
  qed
qed

lemma dialog_reachable_inv: "dialog_reachable w \<Longrightarrow> dialog_inv w"
proof (induction rule: dialog_reachable.induct)
  case (mounted u s c r)
  show ?case by (simp add: dialog_inv_def)
next
  case (input w name val)
  then show ?case by (simp add: dialog_inv_def handleInputChange_def Let_def)
next
  case (video w selected)
  then show ?case
    by (auto simp: dialog_inv_def handleVideoFileChange_def split: option.splits)
next
  case (thumbnail w selected)
  then show ?case
    by (auto simp: dialog_inv_def handleThumbnailFileChange_def split: option.splits)
next
  case (submit w q)
  from submit.IH show ?case by (rule dialog_inv_handleSubmit)
next
  case (outside w u s c r)
  then show ?case by (simp add: dialog_inv_def)
qed

text \<open>
  C2, amended. For a selected file of more than 100MB, \<open>handleSubmit\<close> only shows an error
  toast: the store and the number of its records are as before and no call is made. The
  toast is the one of the first check that fails: the login, the title, then the size, so
  it is the too-large message when a user is logged in and the title is not blank. A file of
  more than 500MB is refused at selection already, with the size message of
  \<open>handleVideoFileChange\<close>, and is not selected.
\<close>

theorem oversize_rejected:
  "(videoFile w = Some file \<and> file_size file > maxSize \<longrightarrow>
      handleSubmit q w =
        toast_error (if user w = None then ''Please log in to upload videos''
                     else if trim (fd_title (formData w)) = [] then ''Please enter a video title''
                     else ''Video file is too large. Maximum size is 100MB.'') w
    \<and> store (handleSubmit q w) = store w
    \<and> length (object_store (store (handleSubmit q w))) = length (object_store (store w))
    \<and> effects (handleSubmit q w) = effects w)
   \<and> (file_size file > 500 * 1024 * 1024 \<longrightarrow>
        handleVideoFileChange (Some file) w
          = toast_error ''Video file size should be less than 500MB'' w
      \<and> videoFile (handleVideoFileChange (Some file) w) = videoFile w
      \<and> store (handleVideoFileChange (Some file) w) = store w)"
proof (intro conjI impI)
  assume a: "videoFile w = Some file \<and> file_size file > maxSize"
  then show eq: "handleSubmit q w =
        toast_error (if user w = None then ''Please log in to upload videos''
                     else if trim (fd_title (formData w)) = [] then ''Please enter a video title''
                     else ''Video file is too large. Maximum size is 100MB.'') w"
    by (simp add: handleSubmit_def split: option.splits)
  show "store (handleSubmit q w) = store w"
    and "length (object_store (store (handleSubmit q w))) = length (object_store (store w))"
    and "effects (handleSubmit q w) = effects w"
    unfolding eq by simp_all
next
  assume b: "file_size file > 500 * 1024 * 1024"
  then show eq: "handleVideoFileChange (Some file) w
          = toast_error ''Video file size should be less than 500MB'' w"
    by (simp add: handleVideoFileChange_def)
  show "videoFile (handleVideoFileChange (Some file) w) = videoFile w"
    and "store (handleVideoFileChange (Some file) w) = store w"
    unfolding eq by simp_all
qed

lemma big_file_selected:
  "handleVideoFileChange (Some big_file) dialog = dialog\<lparr>videoFile := Some big_file\<rparr>"
  by (simp add: handleVideoFileChange_def file_size_def big_file_def startsWith_def)

theorem oversize_rejected_witness:
  "dialog_reachable (handleVideoFileChange (Some big_file) dialog)
   \<and> videoFile (handleVideoFileChange (Some big_file) dialog) = Some big_file
   \<and> file_size big_file > maxSize
   \<and> handleSubmit answers (handleVideoFileChange (Some big_file) dialog)
       = toast_error ''Video file is too large. Maximum size is 100MB.''
           (handleVideoFileChange (Some big_file) dialog)
   \<and> store (handleSubmit answers (handleVideoFileChange (Some big_file) dialog)) = closed_empty
   \<and> effects (handleSubmit answers (handleVideoFileChange (Some big_file) dialog)) = []
   \<and> file_size huge_file > 500 * 1024 * 1024
   \<and> handleVideoFileChange (Some huge_file) dialog
       = toast_error ''Video file size should be less than 500MB'' dialog
   \<and> videoFile (handleVideoFileChange (Some huge_file) dialog) = Some sample_file"
proof -
  let ?w = "handleVideoFileChange (Some big_file) dialog"
  have r: "dialog_reachable ?w"
    using dialog_reachable_dialog by (rule dialog_reachable.video)
  have h1: "videoFile ?w = Some big_file" by (simp add: big_file_selected)
  have h2: "file_size big_file > maxSize"
    by (simp add: file_size_def big_file_def maxSize_def)
  have h3: "file_size huge_file > 500 * 1024 * 1024"
    by (simp add: file_size_def huge_file_def)
  have u: "user ?w = Some alice"
    and t: "trim (fd_title (formData ?w)) \<noteq> []"
    and s: "store ?w = closed_empty"
    and e: "effects ?w = []"
    and v: "videoFile dialog = Some sample_file"
    unfolding big_file_selected
    by (simp_all add: dialog_def trim_def is_space_def initial_form_def)
  from oversize_rejected [of ?w big_file answers] h1 h2 u t s e
  have a: "handleSubmit answers ?w
       = toast_error ''Video file is too large. Maximum size is 100MB.'' ?w
     \<and> store (handleSubmit answers ?w) = closed_empty
     \<and> effects (handleSubmit answers ?w) = []"
    by simp
  from oversize_rejected [of dialog huge_file answers] h3 v
  have b: "handleVideoFileChange (Some huge_file) dialog
       = toast_error ''Video file size should be less than 500MB'' dialog
     \<and> videoFile (handleVideoFileChange (Some huge_file) dialog) = Some sample_file"
    by simp
  from r h1 h2 h3 a b show ?thesis by blast
qed

text \<open>
  C5, as the claim states it: a file whose type is not a video type would always be rejected
  for its type. \<open>handleVideoFileChange\<close> checks the size before the type: an archive of
  more than 500MB is rejected with the size message.
\<close>

theorem non_video_too_large:
  "\<not> startsWith (file_type huge_archive) ''video/''
   \<and> toasts (handleVideoFileChange (Some huge_archive) dialog)
       = [ToastError ''Video file size should be less than 500MB'']"
  by (simp add: handleVideoFileChange_def dialog_def file_size_def huge_archive_def
      startsWith_def)

text \<open>
  C5, amended. A selected file whose MIME type does not start with \<open>video/\<close> is rejected by
  \<open>handleVideoFileChange\<close>: it shows an error toast, makes no call and leaves the selected
  video file as it was. The toast is the one of the first check that fails, the size and
  then the type: the invalid-type message for a file of at most 500MB, the size message for
  a larger one. In no state of the dialog is such a file the selected video file, and no
  call (reading a custom thumbnail, sampling a frame, extracting the duration, storing) has
  been made for the upload of such a file.
\<close>

theorem non_video_rejected:
  assumes "\<not> startsWith (file_type file) ''video/''"
  shows "handleVideoFileChange (Some file) w =
           toast_error (if file_size file > 500 * 1024 * 1024
                        then ''Video file size should be less than 500MB''
                        else ''Please select a valid video file'') w
       \<and> videoFile (handleVideoFileChange (Some file) w) = videoFile w
       \<and> effects (handleVideoFileChange (Some file) w) = effects w
       \<and> store (handleVideoFileChange (Some file) w) = store w
       \<and> (dialog_reachable w2 \<longrightarrow>
            videoFile w2 \<noteq> Some file \<and> file \<notin> fst ` set (effects w2))"
proof -
  have eq: "handleVideoFileChange (Some file) w =
           toast_error (if file_size file > 500 * 1024 * 1024
                        then ''Video file size should be less than 500MB''
                        else ''Please select a valid video file'') w"
    using assms by (simp add: handleVideoFileChange_def)
  have never: "videoFile w2 \<noteq> Some file \<and> file \<notin> fst ` set (effects w2)"
    if "dialog_reachable w2"
  proof -
    from that have "dialog_inv w2" by (rule dialog_reachable_inv)
    with assms show ?thesis
      by (auto simp: dialog_inv_def list_all_iff split: option.splits)
  qed
  from eq never show ?thesis by simp
qed

theorem non_video_rejected_witness:
  "\<not> startsWith (file_type small_image) ''video/''
   \<and> handleVideoFileChange (Some small_image) dialog
       = toast_error ''Please select a valid video file'' dialog
   \<and> videoFile (handleVideoFileChange (Some small_image) dialog) = Some sample_file
   \<and> dialog_reachable (handleSubmit answers (handleVideoFileChange (Some small_image) dialog))
   \<and> small_image \<notin> fst ` set (effects
        (handleSubmit answers (handleVideoFileChange (Some small_image) dialog)))
   \<and> effects (handleSubmit answers dialog)
       = map (Pair sample_file)
           [SimulateUpload, GenerateVideoThumbnail, GetVideoDuration, StoreVideoFile,
            UploadVideo, TriggerRefresh, OnVideoUploaded, OnClose]"
proof -
  have h: "\<not> startsWith (file_type small_image) ''video/''"
    by (simp add: startsWith_def small_image_def)
  have z: "\<not> file_size small_image > 500 * 1024 * 1024"
    and v: "videoFile dialog = Some sample_file"
    by (simp_all add: file_size_def small_image_def dialog_def)
  have r: "dialog_reachable (handleSubmit answers (handleVideoFileChange (Some small_image) dialog))"
    by (intro dialog_reachable.submit dialog_reachable.video dialog_reachable_dialog)
  note rejected = non_video_rejected [OF h, of dialog
      "handleSubmit answers (handleVideoFileChange (Some small_image) dialog)"]
  from rejected have "handleVideoFileChange (Some small_image) dialog
       = toast_error (if file_size small_image > 500 * 1024 * 1024
                      then ''Video file size should be less than 500MB''
                      else ''Please select a valid video file'') dialog"
    by (rule conjunct1)
  with z have a1: "handleVideoFileChange (Some small_image) dialog
       = toast_error ''Please select a valid video file'' dialog"
    by simp
  from rejected v
  have a2: "videoFile (handleVideoFileChange (Some small_image) dialog) = Some sample_file"
    by metis
  from rejected r have a3: "small_image \<notin> fst ` set (effects
          (handleSubmit answers (handleVideoFileChange (Some small_image) dialog)))"
    by blast
  note a = a1 a2 a3
  have e: "effects (handleSubmit answers dialog)
       = map (Pair sample_file)
           [SimulateUpload, GenerateVideoThumbnail, GetVideoDuration, StoreVideoFile,
            UploadVideo, TriggerRefresh, OnVideoUploaded, OnClose]"
    by (simp add: sample_upload)
  from h r a e show ?thesis by blast
qed

lemma storeVideoFile_fails_whatever_metadata:
  "fst (storeVideoFile b file title description duration thumbnail s) = Inl err \<Longrightarrow>
   fst (storeVideoFile b file title2 description2 duration2 thumbnail2 s) = Inl err"
  by (auto simp: storeVideoFile_def idb_add_def Let_def
      split: sum.splits if_splits option.splits idb_answer.splits)

lemma persist_catalog:
  assumes "mockVideos (persist q u file thumbnailUrl d w) \<noteq> mockVideos w"
  shows "\<exists>videoId entry.
       storeVideoFile (store_browser q) file (fd_title (formData w)) (fd_description (formData w))
          d thumbnailUrl (store w) = (Inr videoId, store (persist q u file thumbnailUrl d w))
     \<and> mockVideos (persist q u file thumbnailUrl d w) = entry # mockVideos w
     \<and> v_videoUrl entry = ''stored://'' @ videoId"
  using assms
  by (auto simp: persist_def Let_def uploadVideo_def or_string_def split: prod.splits sum.splits)

lemma extract_duration_catalog:
  assumes "mockVideos (extract_duration q u file thumbnailUrl w) \<noteq> mockVideos w"
  shows "\<exists>videoId entry d.
       storeVideoFile (store_browser q) file (fd_title (formData w)) (fd_description (formData w))
          d thumbnailUrl (store w) = (Inr videoId, store (extract_duration q u file thumbnailUrl w))
     \<and> mockVideos (extract_duration q u file thumbnailUrl w) = entry # mockVideos w
     \<and> v_videoUrl entry = ''stored://'' @ videoId"
proof (cases "video_duration q")
  case (Resolved d)
  with assms have "mockVideos (persist q u file thumbnailUrl d (call file GetVideoDuration w))
      \<noteq> mockVideos (call file GetVideoDuration w)"
    by (simp add: extract_duration_def)
  from persist_catalog [OF this] Resolved show ?thesis
    by (auto simp: extract_duration_def)
next
  case (Rejected err)
  with assms show ?thesis by (simp add: extract_duration_def)
next
  case Pending
  with assms show ?thesis by (simp add: extract_duration_def)
qed

lemma derive_thumbnail_catalog:
  assumes "mockVideos (derive_thumbnail q u file w) \<noteq> mockVideos w"
  shows "\<exists>videoId entry d thumbnailUrl.
       storeVideoFile (store_browser q) file (fd_title (formData w)) (fd_description (formData w))
          d thumbnailUrl (store w) = (Inr videoId, store (derive_thumbnail q u file w))
     \<and> mockVideos (derive_thumbnail q u file w) = entry # mockVideos w
     \<and> v_videoUrl entry = ''stored://'' @ videoId"
proof -
  obtain thumbnailUrl e where
    step: "derive_thumbnail q u file w = extract_duration q u file thumbnailUrl (call file e w)"
    using assms
    by (auto simp: derive_thumbnail_def Let_def split: option.splits promise.splits)
  with assms have "mockVideos (extract_duration q u file thumbnailUrl (call file e w))
      \<noteq> mockVideos (call file e w)" by simp
  from extract_duration_catalog [OF this] show ?thesis
    unfolding step by auto
qed

text \<open>
  C3. When \<open>handleSubmit\<close> has changed the catalog, \<open>storeVideoFile\<close> has been called on the
  selected file and has returned an id, the store is the one it left, and the catalog is the
  former one with one new entry in front, whose \<open>videoUrl\<close> is \<open>stored://\<close> followed by that
  id. When \<open>storeVideoFile\<close> throws for the selected file, the catalog is as before.
\<close>

theorem catalog_entry_after_put:
  "(mockVideos (handleSubmit q w) \<noteq> mockVideos w \<longrightarrow>
      (\<exists>file videoId entry d thumbnailUrl.
          videoFile w = Some file
        \<and> storeVideoFile (store_browser q) file (fd_title (formData w))
             (fd_description (formData w)) d thumbnailUrl (store w)
             = (Inr videoId, store (handleSubmit q w))
        \<and> mockVideos (handleSubmit q w) = entry # mockVideos w
        \<and> v_videoUrl entry = ''stored://'' @ videoId))
   \<and> (videoFile w = Some file
        \<and> fst (storeVideoFile (store_browser q) file (fd_title (formData w))
                 (fd_description (formData w)) d thumbnailUrl (store w)) = Inl err
        \<longrightarrow> mockVideos (handleSubmit q w) = mockVideos w)"
proof -
  have first: "\<exists>file videoId entry d thumbnailUrl.
          videoFile w = Some file
        \<and> storeVideoFile (store_browser q) file (fd_title (formData w))
             (fd_description (formData w)) d thumbnailUrl (store w)
             = (Inr videoId, store (handleSubmit q w))
        \<and> mockVideos (handleSubmit q w) = entry # mockVideos w
        \<and> v_videoUrl entry = ''stored://'' @ videoId"
    if changed: "mockVideos (handleSubmit q w) \<noteq> mockVideos w"
  proof -
    from changed obtain u selected where f: "videoFile w = Some selected"
      and run: "handleSubmit q w = derive_thumbnail q u selected
          (call selected SimulateUpload (w\<lparr>isUploading := True, uploadProgress := 100\<rparr>))"
      by (auto simp: handleSubmit_def split: option.splits if_splits)
    let ?w1 = "call selected SimulateUpload (w\<lparr>isUploading := True, uploadProgress := 100\<rparr>)"
    from changed run have "mockVideos (derive_thumbnail q u selected ?w1) \<noteq> mockVideos ?w1"
      by simp
    from derive_thumbnail_catalog [OF this] f show ?thesis
      unfolding run by auto
  qed
  have second: "mockVideos (handleSubmit q w) = mockVideos w"
    if f: "videoFile w = Some file"
      and fails: "fst (storeVideoFile (store_browser q) file (fd_title (formData w))
                 (fd_description (formData w)) d thumbnailUrl (store w)) = Inl err"
  proof (rule ccontr)
    assume "mockVideos (handleSubmit q w) \<noteq> mockVideos w"
    from first [OF this] obtain selected videoId d2 t2 where
      a: "videoFile w = Some selected" and
      b: "storeVideoFile (store_browser q) selected (fd_title (formData w))
             (fd_description (formData w)) d2 t2 (store w)
           = (Inr videoId, store (handleSubmit q w))"
      by blast
    from a f b have
      "fst (storeVideoFile (store_browser q) file (fd_title (formData w))
             (fd_description (formData w)) d2 t2 (store w)) = Inr videoId"
      by simp
    with storeVideoFile_fails_whatever_metadata [OF fails, of "fd_title (formData w)"
        "fd_description (formData w)" d2 t2]
    show False by simp
  qed
  from first second show ?thesis by blast
qed

lemma sample_store_fails:
  "fst (storeVideoFile no_indexeddb sample_file ''Test'' [] 3 ''/default-thumbnail.jpg''
          closed_empty) = Inl (Error ''Failed to open IndexedDB'')"
  by (simp add: storeVideoFile_def ensureDB_cases no_indexeddb_def online_def closed_empty_def)

theorem catalog_entry_after_put_witness:
  "mockVideos (handleSubmit answers dialog) = [uploaded_entry]
   \<and> mockVideos dialog = []
   \<and> v_videoUrl uploaded_entry = ''stored://video_1700_k3x9''
   \<and> (\<exists>file videoId entry d thumbnailUrl.
          videoFile dialog = Some file
        \<and> storeVideoFile (store_browser answers) file (fd_title (formData dialog))
             (fd_description (formData dialog)) d thumbnailUrl (store dialog)
             = (Inr videoId, store (handleSubmit answers dialog))
        \<and> mockVideos (handleSubmit answers dialog) = entry # mockVideos dialog
        \<and> v_videoUrl entry = ''stored://'' @ videoId)
   \<and> videoFile dialog = Some sample_file
   \<and> fst (storeVideoFile no_indexeddb sample_file ''Test'' [] 3 ''/default-thumbnail.jpg''
            closed_empty) = Inl (Error ''Failed to open IndexedDB'')
   \<and> mockVideos (handleSubmit (answers\<lparr>store_browser := no_indexeddb\<rparr>) dialog) = []"
proof -
  have up: "mockVideos (handleSubmit answers dialog) = [uploaded_entry]"
    by (simp add: sample_upload)
  have m: "mockVideos dialog = []" and f: "videoFile dialog = Some sample_file"
    and t: "fd_title (formData dialog) = ''Test''" and d: "fd_description (formData dialog) = []"
    and s: "store dialog = closed_empty"
    by (simp_all add: dialog_def initial_form_def)
  have url: "v_videoUrl uploaded_entry = ''stored://video_1700_k3x9''"
    by (simp add: uploaded_entry_def)
  have changed: "mockVideos (handleSubmit answers dialog) \<noteq> mockVideos dialog"
    using up m by simp
  have sb: "store_browser (answers\<lparr>store_browser := no_indexeddb\<rparr>) = no_indexeddb" by simp
  from catalog_entry_after_put [of answers dialog] changed
  have one: "\<exists>file videoId entry d thumbnailUrl.
          videoFile dialog = Some file
        \<and> storeVideoFile (store_browser answers) file (fd_title (formData dialog))
             (fd_description (formData dialog)) d thumbnailUrl (store dialog)
             = (Inr videoId, store (handleSubmit answers dialog))
        \<and> mockVideos (handleSubmit answers dialog) = entry # mockVideos dialog
        \<and> v_videoUrl entry = ''stored://'' @ videoId"
    by blast
  from catalog_entry_after_put [of "answers\<lparr>store_browser := no_indexeddb\<rparr>" dialog
      sample_file 3 "''/default-thumbnail.jpg''" "Error ''Failed to open IndexedDB''"]
    f sample_store_fails
  have two: "mockVideos (handleSubmit (answers\<lparr>store_browser := no_indexeddb\<rparr>) dialog) = []"
    unfolding sb t d s m by blast
  from up m url one f sample_store_fails two show ?thesis by blast
qed

lemma persist_ignores_thumbnail_answer [simp]:
  "persist (q\<lparr>generate_thumbnail := g\<rparr>) u file thumbnailUrl d w
     = persist q u file thumbnailUrl d w"
  by (auto simp: persist_def Let_def split: prod.splits sum.splits)

text \<open>
  C4, as the claim states it: a failure of the duration extraction would default the
  duration and the upload would go on to the store. \<open>getVideoDuration\<close> is awaited outside
  any inner \<open>try\<close>: when it rejects, the \<open>catch\<close> block of \<open>handleSubmit\<close> shows its toast
  and nothing is stored.
\<close>

theorem duration_failure_aborts:
  "user dialog = Some alice \<and> videoFile dialog = Some sample_file
   \<and> startsWith (file_type sample_file) ''video/'' \<and> file_size sample_file \<le> maxSize
   \<and> StoreVideoFile \<notin> snd ` set (effects (handleSubmit
         (answers\<lparr>video_duration := Rejected (Error ''Failed to load video duration'')\<rparr>) dialog))
   \<and> store (handleSubmit
         (answers\<lparr>video_duration := Rejected (Error ''Failed to load video duration'')\<rparr>) dialog)
       = store dialog
   \<and> toasts (handleSubmit
         (answers\<lparr>video_duration := Rejected (Error ''Failed to load video duration'')\<rparr>) dialog)
       = [ToastError
           ''Failed to extract video duration. Please try with a different video format.'']"
  by (simp add: sample_duration_rejects)
     (simp add: dialog_def sample_file_def startsWith_def file_size_def maxSize_def)

text \<open>
  C4, amended. For a submission that passes the checks: when sampling a frame rejects,
  \<open>handleSubmit\<close> keeps the default thumbnail and goes on, to the duration step and from
  there exactly as if the sampling had given \<open>/default-thumbnail.jpg\<close>. When
  \<open>getVideoDuration\<close> rejects, or when reading a custom thumbnail file fails, nothing is
  defaulted: the store and the catalog are as before, \<open>storeVideoFile\<close> is not called and the
  error toast of the \<open>catch\<close> block is shown.
\<close>

theorem derivation_failures:
  assumes "user w = Some u" and "videoFile w = Some file"
      and "trim (fd_title (formData w)) \<noteq> []"
      and "file_size file \<le> maxSize" and "startsWith (file_type file) ''video/''"
  shows "(thumbnailFile w = None \<and> generate_thumbnail q = Rejected err \<longrightarrow>
            handleSubmit q w
              = handleSubmit (q\<lparr>generate_thumbnail := Resolved ''/default-thumbnail.jpg''\<rparr>) w
          \<and> (file, GetVideoDuration) \<in> set (effects (handleSubmit q w)))
       \<and> (video_duration q = Rejected err \<longrightarrow>
            store (handleSubmit q w) = store w
          \<and> mockVideos (handleSubmit q w) = mockVideos w
          \<and> (\<exists>new. effects (handleSubmit q w) = effects w @ map (Pair file) new
                \<and> StoreVideoFile \<notin> set new)
          \<and> ((thumbnailFile w = None \<and> generate_thumbnail q \<noteq> Pending)
               \<or> (thumbnailFile w \<noteq> None \<and> (\<exists>url. read_thumbnail q = Resolved url))
              \<longrightarrow> toasts (handleSubmit q w) = toasts w @ [ToastError (catch_message err)]
                \<and> \<not> isUploading (handleSubmit q w)))
       \<and> (thumbnailFile w \<noteq> None \<and> read_thumbnail q = Rejected err \<longrightarrow>
            store (handleSubmit q w) = store w
          \<and> mockVideos (handleSubmit q w) = mockVideos w
          \<and> effects (handleSubmit q w)
              = effects w @ map (Pair file) [SimulateUpload, ReadThumbnailFile]
          \<and> toasts (handleSubmit q w) = toasts w @ [ToastError (catch_message err)])"
proof -
  let ?w1 = "call file SimulateUpload (w\<lparr>isUploading := True, uploadProgress := 100\<rparr>)"
  have run: "handleSubmit q2 w = derive_thumbnail q2 u file ?w1" for q2
    using assms by (simp add: handleSubmit_def)
  have reached: "(file, GetVideoDuration)
      \<in> set (effects (persist q u file t d (call file GetVideoDuration w2)))"
    for t d w2
    using persist_effects [of q u "file" t d "call file GetVideoDuration w2"] by auto
  have two: "\<exists>new. [(file, SimulateUpload), (file, e)] = map (Pair file) new
                 \<and> StoreVideoFile \<notin> set new"
    if "e \<noteq> StoreVideoFile" for e
    using that by (intro exI [of _ "[SimulateUpload, e]"]) simp
  have three: "\<exists>new. [(file, SimulateUpload), (file, e), (file, GetVideoDuration)]
                   = map (Pair file) new \<and> StoreVideoFile \<notin> set new"
    if "e \<noteq> StoreVideoFile" for e
    using that by (intro exI [of _ "[SimulateUpload, e, GetVideoDuration]"]) simp
  show ?thesis
    unfolding run
    by (auto simp: derive_thumbnail_def extract_duration_def Let_def reached
        intro!: two three split: option.splits promise.splits)
qed

lemma dialog_valid:
  "user dialog = Some alice" "videoFile dialog = Some sample_file"
  "trim (fd_title (formData dialog)) \<noteq> []"
  "file_size sample_file \<le> maxSize" "startsWith (file_type sample_file) ''video/''"
  by (simp_all add: dialog_def trim_def is_space_def initial_form_def file_size_def
      sample_file_def maxSize_def startsWith_def)

theorem derivation_failures_witness:
  "user dialog = Some alice \<and> videoFile dialog = Some sample_file
   \<and> trim (fd_title (formData dialog)) \<noteq> []
   \<and> file_size sample_file \<le> maxSize \<and> startsWith (file_type sample_file) ''video/''
   \<and> handleSubmit (answers\<lparr>generate_thumbnail := Rejected NonError\<rparr>) dialog
       = handleSubmit (answers\<lparr>generate_thumbnail := Rejected NonError,
                                 generate_thumbnail := Resolved ''/default-thumbnail.jpg''\<rparr>) dialog
   \<and> (sample_file, GetVideoDuration)
       \<in> set (effects (handleSubmit (answers\<lparr>generate_thumbnail := Rejected NonError\<rparr>) dialog))
   \<and> store (handleSubmit (answers\<lparr>video_duration := Rejected NonError\<rparr>) dialog) = closed_empty
   \<and> toasts (handleSubmit (answers\<lparr>video_duration := Rejected NonError\<rparr>) dialog)
       = [ToastError ''Failed to upload video. Please try again.'']
   \<and> toasts (handleSubmit (answers\<lparr>read_thumbnail := Rejected NonError\<rparr>)
         (dialog\<lparr>thumbnailFile := Some small_image\<rparr>))
       = [ToastError ''Failed to upload video. Please try again.'']
   \<and> effects (handleSubmit (answers\<lparr>read_thumbnail := Rejected NonError\<rparr>)
         (dialog\<lparr>thumbnailFile := Some small_image\<rparr>))
       = [(sample_file, SimulateUpload), (sample_file, ReadThumbnailFile)]"
proof -
  have n: "thumbnailFile dialog = None" and s: "store dialog = closed_empty"
    and t: "toasts dialog = []" and e: "effects dialog = []"
    by (simp_all add: dialog_def)
  have g: "generate_thumbnail answers \<noteq> Pending"
    by (simp add: answers_def)
  have m: "catch_message NonError = ''Failed to upload video. Please try again.''"
    by (simp add: catch_message_def)
  have ga: "generate_thumbnail (answers\<lparr>generate_thumbnail := Rejected NonError\<rparr>)
      = Rejected NonError" by simp
  from derivation_failures [OF dialog_valid,
      of "answers\<lparr>generate_thumbnail := Rejected NonError\<rparr>" NonError] n ga
  have a: "handleSubmit (answers\<lparr>generate_thumbnail := Rejected NonError\<rparr>) dialog
       = handleSubmit (answers\<lparr>generate_thumbnail := Rejected NonError,
                                 generate_thumbnail := Resolved ''/default-thumbnail.jpg''\<rparr>) dialog
     \<and> (sample_file, GetVideoDuration)
       \<in> set (effects (handleSubmit (answers\<lparr>generate_thumbnail := Rejected NonError\<rparr>) dialog))"
    by blast
  from derivation_failures [OF dialog_valid,
      of "answers\<lparr>video_duration := Rejected NonError\<rparr>" NonError] n g s t m
  have b: "store (handleSubmit (answers\<lparr>video_duration := Rejected NonError\<rparr>) dialog)
             = closed_empty
     \<and> toasts (handleSubmit (answers\<lparr>video_duration := Rejected NonError\<rparr>) dialog)
       = [ToastError ''Failed to upload video. Please try again.'']"
    by simp
  have v: "user (dialog\<lparr>thumbnailFile := Some small_image\<rparr>) = Some alice"
    "videoFile (dialog\<lparr>thumbnailFile := Some small_image\<rparr>) = Some sample_file"
    "trim (fd_title (formData (dialog\<lparr>thumbnailFile := Some small_image\<rparr>))) \<noteq> []"
    using dialog_valid by simp_all
  from derivation_failures [OF v dialog_valid(4,5),
      of "answers\<lparr>read_thumbnail := Rejected NonError\<rparr>" NonError] t e m
  have c: "toasts (handleSubmit (answers\<lparr>read_thumbnail := Rejected NonError\<rparr>)
         (dialog\<lparr>thumbnailFile := Some small_image\<rparr>))
       = [ToastError ''Failed to upload video. Please try again.'']
     \<and> effects (handleSubmit (answers\<lparr>read_thumbnail := Rejected NonError\<rparr>)
         (dialog\<lparr>thumbnailFile := Some small_image\<rparr>))
       = [(sample_file, SimulateUpload), (sample_file, ReadThumbnailFile)]"
    by simp
  from dialog_valid a b c show ?thesis by blast
qed

end
